theory Spec2Isabelle
  imports
    Complex_Main
    "HOL-Library.Char_ord"
    "HOL-Library.List_Lexorder"
    "HOL-Library.Product_Lexorder"
    "HOL-Library.Multiset"
begin

section \<open>Data model\<close>

text \<open>
  The script \<^verbatim>\<open>generate_results.py\<close> reads pickled tables of per-sample predictions,
  squashes the logits of three model types, computes five binary-classification metrics
  per group and logs a mean/standard-deviation summary per model and strategy.

  A row of the loaded table carries the five grouping columns, a score and a label. The
  merged metrics table carries the same five grouping columns and one scalar per metric,
  in the column order the chain of merges produces (mcc, precision, kappa, recall, auc).

  Numbers: a score of the loaded table is a real number. Wherever the script hands scores
  to torch they become 32-bit floats, and that conversion and the 32-bit sigmoid are
  modelled with their rounding (section \<open>32-bit floats\<close>). A metric value is a real or NaN
  (\<open>fl\<close>); the arithmetic the metric library does on the counts of a confusion matrix
  and on the points of a ROC curve is modelled over the reals.
\<close>

record group_key =
  seed :: int
  user :: string
  model :: string
  strategy :: string
  reading_task :: string

record prediction_record = group_key +
  predictions :: real
  targets :: int

datatype fl = Num real | NaN

record metric_row = group_key +
  mcc :: fl
  precision :: fl
  kappa :: fl
  recall :: fl
  auc :: fl

type_synonym key_tuple = "int \<times> string \<times> string \<times> string \<times> string"

definition key_of :: "'a group_key_scheme \<Rightarrow> key_tuple" where
  "key_of r = (seed r, user r, model r, strategy r, reading_task r)"

text \<open>The exceptions of a run over well-typed tables: the metric library refuses a label
  outside 0 and 1 (\<open>RuntimeError\<close>), and pandas refuses to merge the frames that a table
  with no rows leaves (\<open>MergeError\<close>).\<close>

datatype error = RuntimeError | MergeError

datatype log_record = WARNING string | INFO string

datatype outcome = Quit | Raised error | Done "prediction_record list" "metric_row list"

section \<open>Loader\<close>

text \<open>
  \<^verbatim>\<open>glob.glob\<close> hands back the matching paths in some order; each file is a table.
  The argument \<open>filepaths\<close> of the model is that list, each path with the table its
  pickle holds. Every file is announced in the log, the tables are concatenated in order.
  The concatenated table keeps each file's own row labels; the steps below address rows
  by position and by column value only, so the labels are left out of the model.
\<close>

definition read_files ::
    "(string \<times> prediction_record list) list \<Rightarrow> log_record list \<times> prediction_record list" where
  "read_files filepaths =
     (map (\<lambda>(fp, t). INFO (''Reading '' @ fp)) filepaths, concat (map snd filepaths))"

section \<open>32-bit floats\<close>

text \<open>
  A finite 32-bit float is an integer multiple of a power of two \<open>2 ^ (e - 23)\<close> with
  \<open>- 126 \<le> e\<close> and a significand below \<open>2 ^ 24\<close>. Converting a number rounds it to the
  nearest multiple of the unit of its binade (of \<open>2 ^ - 149\<close> below the normal range), a
  tie going to the even multiple; a result of magnitude \<open>2 ^ 128\<close> or more is an infinity.
\<close>

definition pow2 :: "int \<Rightarrow> real" where
  "pow2 e = (if 0 \<le> e then 2 ^ nat e else 1 / 2 ^ nat (- e))"

definition round_half_even :: "real \<Rightarrow> int" where
  "round_half_even z =
     (if z - of_int \<lfloor>z\<rfloor> < 1 / 2 then \<lfloor>z\<rfloor>
      else if 1 / 2 < z - of_int \<lfloor>z\<rfloor> then \<lfloor>z\<rfloor> + 1
      else if even \<lfloor>z\<rfloor> then \<lfloor>z\<rfloor> else \<lfloor>z\<rfloor> + 1)"

definition binade :: "real \<Rightarrow> int" where
  "binade y = max \<lfloor>log 2 \<bar>y\<bar>\<rfloor> (- 126)"

definition round32 :: "real \<Rightarrow> real" where
  "round32 y =
     sgn y * (of_int (round_half_even (\<bar>y\<bar> / pow2 (binade y - 23))) * pow2 (binade y - 23))"

datatype float32 = Finite real | PosInf | NegInf

definition to_float32 :: "real \<Rightarrow> float32" where
  "to_float32 y =
     (if 2 ^ 128 \<le> round32 y then PosInf
      else if round32 y \<le> - (2 ^ 128) then NegInf
      else Finite (round32 y))"

text \<open>\<^verbatim>\<open>tensor(values)\<close> of a list of Python floats: a tensor of 32-bit floats.\<close>

definition tensor :: "real list \<Rightarrow> float32 list" where
  "tensor values = map to_float32 values"

text \<open>
  The sigmoid of a 32-bit float, as torch evaluates it: \<open>1 / (1 + exp (- x))\<close> in 32-bit
  arithmetic. The model rounds after the exponential, after the sum and after the
  quotient (the exponential is taken as correctly rounded). An exponential that
  overflows is an infinity and the quotient is 0; the sigmoid of the infinities is 1 and
  0. The result is a finite 32-bit float; read back with \<^verbatim>\<open>tolist\<close> or \<^verbatim>\<open>item\<close> it is
  the same number as a Python float.
\<close>

fun sigmoid :: "float32 \<Rightarrow> real" where
  "sigmoid PosInf = 1"
| "sigmoid NegInf = 0"
| "sigmoid (Finite v) =
     (case to_float32 (exp (- v)) of
        Finite e \<Rightarrow> round32 (1 / round32 (1 + e))
      | PosInf \<Rightarrow> 0
      | NegInf \<Rightarrow> 0)"

section \<open>Predictor normalizer\<close>

text \<open>
  The rows of the three logit models get, in place of their prediction \<open>x\<close>, the value of
  \<^verbatim>\<open>Sigmoid()(FloatTensor([x])).tolist().pop()\<close>: \<open>x\<close> as a 32-bit float, through the
  32-bit sigmoid.
\<close>

definition logit_models :: "string list" where
  "logit_models = [''eegnet'', ''lstm'', ''uercm'']"

definition isin_mask :: "prediction_record list \<Rightarrow> bool list" where
  "isin_mask results = map (\<lambda>r. model r \<in> set logit_models) results"

definition loc_mask :: "bool list \<Rightarrow> 'a list \<Rightarrow> 'a list" where
  "loc_mask msk results = map snd (filter fst (zip msk results))"

text \<open>
  \<^verbatim>\<open>results.loc[mask, 'predictions'] = values\<close>: the right-hand side has the index of
  the masked rows, so the values are written by position, one per masked row, into the
  \<open>predictions\<close> column.
\<close>

fun loc_assign :: "bool list \<Rightarrow> real list \<Rightarrow> prediction_record list \<Rightarrow> prediction_record list" where
  "loc_assign (True # msk) (v # vs) (r # rs) = r\<lparr>predictions := v\<rparr> # loc_assign msk vs rs"
| "loc_assign (False # msk) vs (r # rs) = r # loc_assign msk vs rs"
| "loc_assign msk vs rs = rs"

definition apply_sigmoid :: "prediction_record list \<Rightarrow> prediction_record list" where
  "apply_sigmoid results =
     (let msk = isin_mask results;
          masked_results = loc_mask msk results
      in loc_assign msk (map (\<lambda>r. sigmoid (to_float32 (predictions r))) masked_results) results)"

section \<open>The metric library\<close>

text \<open>
  The five metrics are torchmetrics' binary classification metrics with their default
  arguments (threshold 0.5, argument validation on). They take the scores as a tensor of
  32-bit floats and share their input handling: labels other than 0 and 1 are refused;
  scores that do not all lie in \<open>[0, 1]\<close> are taken for logits and passed through the
  sigmoid; a score above the threshold is a positive prediction.
\<close>

definition valid_targets :: "int list \<Rightarrow> bool" where
  "valid_targets target = list_all (\<lambda>t. t = 0 \<or> t = 1) target"

fun is_probability :: "float32 \<Rightarrow> bool" where
  "is_probability (Finite v) = (0 \<le> v \<and> v \<le> 1)"
| "is_probability PosInf = False"
| "is_probability NegInf = False"

text \<open>The number a finite float is (an infinity is not within \<open>[0, 1]\<close>, so its value is
  never asked for).\<close>

fun float_value :: "float32 \<Rightarrow> real" where
  "float_value (Finite v) = v"
| "float_value PosInf = 0"
| "float_value NegInf = 0"

definition to_probabilities :: "float32 list \<Rightarrow> real list" where
  "to_probabilities preds =
     (if list_all is_probability preds then map float_value preds else map sigmoid preds)"

definition to_labels :: "float32 list \<Rightarrow> int list" where
  "to_labels preds = map (\<lambda>p. if p > 1 / 2 then 1 else 0) (to_probabilities preds)"

definition count_pairs :: "int \<Rightarrow> int \<Rightarrow> int list \<Rightarrow> int list \<Rightarrow> nat" where
  "count_pairs t p target preds = length (filter (\<lambda>pr. pr = (t, p)) (zip target preds))"

text \<open>The confusion matrix, flattened as the library does: tn, fp, fn, tp.\<close>

definition confusion_matrix :: "float32 list \<Rightarrow> int list \<Rightarrow> nat \<times> nat \<times> nat \<times> nat" where
  "confusion_matrix preds target =
     (let labels = to_labels preds
      in (count_pairs 0 0 target labels, count_pairs 0 1 target labels,
          count_pairs 1 0 target labels, count_pairs 1 1 target labels))"

definition safe_divide :: "real \<Rightarrow> real \<Rightarrow> real" where
  "safe_divide num denom = (if denom = 0 then 0 else num / denom)"

definition binary_precision :: "float32 list \<Rightarrow> int list \<Rightarrow> error + fl" where
  "binary_precision preds target =
     (if \<not> valid_targets target then Inl RuntimeError
      else case confusion_matrix preds target of
             (tn, fp, fn, tp) \<Rightarrow> Inr (Num (safe_divide (real tp) (real (tp + fp)))))"

definition binary_recall :: "float32 list \<Rightarrow> int list \<Rightarrow> error + fl" where
  "binary_recall preds target =
     (if \<not> valid_targets target then Inl RuntimeError
      else case confusion_matrix preds target of
             (tn, fp, fn, tp) \<Rightarrow> Inr (Num (safe_divide (real tp) (real (tp + fn)))))"

text \<open>
  Matthews correlation coefficient from the confusion matrix. All-correct is 1 and
  all-wrong is -1; when a whole row or column of the matrix is empty the covariance
  formula has a zero denominator and the library falls back on a formula regularised
  with the machine epsilon of 32-bit floats.
\<close>

definition float32_eps :: real where
  "float32_eps = 1 / 2 ^ 23"

definition matthews_corrcoef_reduce :: "nat \<times> nat \<times> nat \<times> nat \<Rightarrow> real" where
  "matthews_corrcoef_reduce confmat =
     (case confmat of (tn, fp, fn, tp) \<Rightarrow>
        if tp + tn \<noteq> 0 \<and> fp + fn = 0 then 1
        else if tp + tn = 0 \<and> fp + fn \<noteq> 0 then - 1
        else
          let tk0 = real (tn + fp); tk1 = real (fn + tp);
              pk0 = real (tn + fn); pk1 = real (fp + tp);
              c = real (tn + tp);
              s = real (tn + fp + fn + tp);
              cov_ytyp = c * s - (tk0 * pk0 + tk1 * pk1);
              cov_ypyp = s\<^sup>2 - (pk0 * pk0 + pk1 * pk1);
              cov_ytyt = s\<^sup>2 - (tk0 * tk0 + tk1 * tk1);
              denom = cov_ypyp * cov_ytyt
          in if denom = 0
             then sqrt float32_eps * (real (tp + tn) - real (fp + fn)) /
                  sqrt ((real tp + real fp + float32_eps) * (real tp + real fn + float32_eps) *
                        (real tn + real fp + float32_eps) * (real tn + real fn + float32_eps))
             else cov_ytyp / sqrt denom)"

definition binary_matthews_corrcoef :: "float32 list \<Rightarrow> int list \<Rightarrow> error + fl" where
  "binary_matthews_corrcoef preds target =
     (if \<not> valid_targets target then Inl RuntimeError
      else Inr (Num (matthews_corrcoef_reduce (confusion_matrix preds target))))"

text \<open>
  Cohen's kappa: one minus the observed off-diagonal mass over the off-diagonal mass
  expected from the margins. Both are zero when every label and every prediction is the
  same class; the quotient 0/0 is NaN. (A non-zero numerator over a zero denominator
  would be an infinity; \<open>cohen_kappa_nan\<close> below shows that the confusion matrix never
  produces one: where the expected mass is zero, so is the observed one.)
\<close>

definition fl_divide :: "real \<Rightarrow> real \<Rightarrow> fl" where
  "fl_divide a b = (if b = 0 then NaN else Num (a / b))"

fun one_minus :: "fl \<Rightarrow> fl" where
  "one_minus (Num k) = Num (1 - k)"
| "one_minus NaN = NaN"

definition kappa_observed :: "nat \<times> nat \<times> nat \<times> nat \<Rightarrow> real" where
  "kappa_observed confmat = (case confmat of (tn, fp, fn, tp) \<Rightarrow> real (fp + fn))"

definition kappa_expected :: "nat \<times> nat \<times> nat \<times> nat \<Rightarrow> real" where
  "kappa_expected confmat =
     (case confmat of (tn, fp, fn, tp) \<Rightarrow>
        (real (tn + fp) * real (fp + tp) + real (fn + tp) * real (tn + fn)) /
        real (tn + fp + fn + tp))"

definition cohen_kappa_reduce :: "nat \<times> nat \<times> nat \<times> nat \<Rightarrow> fl" where
  "cohen_kappa_reduce confmat =
     one_minus (fl_divide (kappa_observed confmat) (kappa_expected confmat))"

definition binary_cohen_kappa :: "float32 list \<Rightarrow> int list \<Rightarrow> error + fl" where
  "binary_cohen_kappa preds target =
     (if \<not> valid_targets target then Inl RuntimeError
      else Inr (cohen_kappa_reduce (confusion_matrix preds target)))"

text \<open>
  Area under the ROC curve, exact (no binning). The pairs are sorted by descending score;
  walking down, the running counts of false and true positives are recorded at the last
  pair of every run of equal scores; the curve starts at (0, 0). A count whose total is
  zero (no negative or no positive label in the group) gives a rate that is zero
  throughout. The area is the trapezoid sum.
\<close>

fun clf_curve :: "(real \<times> int) list \<Rightarrow> nat \<Rightarrow> nat \<Rightarrow> (nat \<times> nat) list" where
  "clf_curve [] fps tps = []"
| "clf_curve [(p, t)] fps tps = [if t = 1 then (fps, Suc tps) else (Suc fps, tps)]"
| "clf_curve ((p, t) # (q, u) # rest) fps tps =
     (if t = 1
      then (if p \<noteq> q then [(fps, Suc tps)] else []) @ clf_curve ((q, u) # rest) fps (Suc tps)
      else (if p \<noteq> q then [(Suc fps, tps)] else []) @ clf_curve ((q, u) # rest) (Suc fps) tps)"

definition sort_descending :: "(real \<times> int) list \<Rightarrow> (real \<times> int) list" where
  "sort_descending pairs = sort_key (\<lambda>(p, t). - p) pairs"

definition rate :: "nat list \<Rightarrow> real list" where
  "rate counts = (if last counts = 0 then map (\<lambda>c. 0) counts
                  else map (\<lambda>c. real c / real (last counts)) counts)"

fun trapz :: "real list \<Rightarrow> real list \<Rightarrow> real" where
  "trapz (y0 # y1 # ys) (x0 # x1 # xs) = (x1 - x0) * (y0 + y1) / 2 + trapz (y1 # ys) (x1 # xs)"
| "trapz ys xs = 0"

definition binary_roc :: "float32 list \<Rightarrow> int list \<Rightarrow> real list \<times> real list" where
  "binary_roc preds target =
     (let curve = clf_curve (sort_descending (zip (to_probabilities preds) target)) 0 0;
          fps = 0 # map fst curve;
          tps = 0 # map snd curve
      in (rate fps, rate tps))"

definition binary_auroc :: "float32 list \<Rightarrow> int list \<Rightarrow> error + fl" where
  "binary_auroc preds target =
     (if \<not> valid_targets target then Inl RuntimeError
      else case binary_roc preds target of (fpr, tpr) \<Rightarrow> Inr (Num (trapz tpr fpr)))"

section \<open>Metric aggregator\<close>

text \<open>
  \<^verbatim>\<open>groupby\<close> on the five key columns: the groups are the distinct keys in sorted order,
  each with its rows in table order. \<^verbatim>\<open>apply\<close> runs the metric on every group in turn,
  on the tensor of the group's predictions and the list of its targets, and stops at the
  first exception; \<^verbatim>\<open>reset_index\<close> turns the result into a table of key and value.
\<close>

definition group_rows :: "key_tuple \<Rightarrow> prediction_record list \<Rightarrow> prediction_record list" where
  "group_rows k results = filter (\<lambda>r. key_of r = k) results"

definition groupby :: "prediction_record list \<Rightarrow> (key_tuple \<times> prediction_record list) list" where
  "groupby results = map (\<lambda>k. (k, group_rows k results)) (sort (remdups (map key_of results)))"

definition on_group ::
    "(float32 list \<Rightarrow> int list \<Rightarrow> error + fl) \<Rightarrow> prediction_record list \<Rightarrow> error + fl" where
  "on_group metric x = metric (tensor (map predictions x)) (map targets x)"

fun apply_groups ::
    "(prediction_record list \<Rightarrow> error + fl) \<Rightarrow> (key_tuple \<times> prediction_record list) list
      \<Rightarrow> error + (key_tuple \<times> fl) list" where
  "apply_groups f [] = Inr []"
| "apply_groups f ((k, x) # groups) =
     (case f x of
        Inl e \<Rightarrow> Inl e
      | Inr v \<Rightarrow> (case apply_groups f groups of
                    Inl e \<Rightarrow> Inl e
                  | Inr vs \<Rightarrow> Inr ((k, v) # vs)))"

text \<open>Inner join on the key columns, in the order of the left table.\<close>

definition merge_on :: "(key_tuple \<times> 'a) list \<Rightarrow> (key_tuple \<times> 'b) list \<Rightarrow> (key_tuple \<times> 'a \<times> 'b) list" where
  "merge_on left right =
     concat (map (\<lambda>(k, a). map (\<lambda>(k', b). (k, a, b)) (filter (\<lambda>(k', b). k' = k) right)) left)"

definition to_metric_row :: "key_tuple \<times> (((fl \<times> fl) \<times> fl) \<times> fl) \<times> fl \<Rightarrow> metric_row" where
  "to_metric_row row =
     (case row of ((sd, us, mo, st, rt), (((m, p), k), r), a) \<Rightarrow>
        \<lparr>seed = sd, user = us, model = mo, strategy = st, reading_task = rt,
         mcc = m, precision = p, kappa = k, recall = r, auc = a\<rparr>)"

definition merge_metrics ::
    "(key_tuple \<times> fl) list \<Rightarrow> (key_tuple \<times> fl) list \<Rightarrow> (key_tuple \<times> fl) list \<Rightarrow>
     (key_tuple \<times> fl) list \<Rightarrow> (key_tuple \<times> fl) list \<Rightarrow> metric_row list" where
  "merge_metrics mcc_t kappa_t precision_t recall_t auc_t =
     map to_metric_row
       (merge_on (merge_on (merge_on (merge_on mcc_t precision_t) kappa_t) recall_t) auc_t)"

definition bind_result :: "error + 'a \<Rightarrow> ('a \<Rightarrow> error + 'b) \<Rightarrow> error + 'b" where
  "bind_result m f = (case m of Inl e \<Rightarrow> Inl e | Inr v \<Rightarrow> f v)"

text \<open>
  A table with no rows has no group. \<^verbatim>\<open>apply\<close> then calls no metric and returns, in
  place of a column of values, an empty frame with the columns of the table; no column is
  renamed, and the chain of merges stops on the column names the frames share
  (\<open>MergeError\<close>).
\<close>

definition compute_metrics :: "prediction_record list \<Rightarrow> error + metric_row list" where
  "compute_metrics results =
     (let groups = groupby results in
      bind_result (apply_groups (on_group binary_matthews_corrcoef) groups) (\<lambda>mcc_t.
      bind_result (apply_groups (on_group binary_cohen_kappa) groups) (\<lambda>kappa_t.
      bind_result (apply_groups (on_group binary_precision) groups) (\<lambda>precision_t.
      bind_result (apply_groups (on_group binary_recall) groups) (\<lambda>recall_t.
      bind_result (apply_groups (on_group binary_auroc) groups) (\<lambda>auc_t.
      if groups = [] then Inl MergeError
      else Inr (merge_metrics mcc_t kappa_t precision_t recall_t auc_t)))))))"

section \<open>Reporter\<close>

text \<open>
  \<^verbatim>\<open>unique\<close> keeps the first occurrence of every value, in order of appearance.
  \<^verbatim>\<open>mean\<close> and \<^verbatim>\<open>std\<close> of a column skip NaN; the mean of nothing is NaN, and so is
  the standard deviation (one degree of freedom removed) of fewer than two values.
  The two-decimal rendering of a finite number (\<^verbatim>\<open>%.2f\<close>) is a parameter \<open>fmt\<close> of
  the model; NaN is printed as \<^verbatim>\<open>nan\<close>.
\<close>

fun unique_scan :: "'a list \<Rightarrow> 'a list \<Rightarrow> 'a list" where
  "unique_scan seen [] = rev seen"
| "unique_scan seen (x # xs) =
     (if x \<in> set seen then unique_scan seen xs else unique_scan (x # seen) xs)"

definition unique :: "'a list \<Rightarrow> 'a list" where
  "unique xs = unique_scan [] xs"

fun dropna :: "fl list \<Rightarrow> real list" where
  "dropna [] = []"
| "dropna (Num v # xs) = v # dropna xs"
| "dropna (NaN # xs) = dropna xs"

definition pd_mean :: "fl list \<Rightarrow> fl" where
  "pd_mean column =
     (let values = dropna column
      in if values = [] then NaN else Num (sum_list values / real (length values)))"

definition pd_std :: "fl list \<Rightarrow> fl" where
  "pd_std column =
     (let values = dropna column;
          count = length values
      in if count \<le> 1 then NaN
         else let avg = sum_list values / real count
              in Num (sqrt (sum_list (map (\<lambda>v. (avg - v)\<^sup>2) values) / real (count - 1))))"

fun format_2f :: "(real \<Rightarrow> string) \<Rightarrow> fl \<Rightarrow> string" where
  "format_2f fmt (Num v) = fmt v"
| "format_2f fmt NaN = ''nan''"

definition select_rows :: "metric_row list \<Rightarrow> string \<Rightarrow> string \<Rightarrow> metric_row list" where
  "select_rows metrics mo st = filter (\<lambda>r. model r = mo \<and> strategy r = st) metrics"

definition report_columns :: "(string \<times> (metric_row \<Rightarrow> fl)) list" where
  "report_columns = [(''auc'', auc), (''precision'', precision), (''recall'', recall)]"

definition strategy_order :: "metric_row list \<Rightarrow> string list" where
  "strategy_order metrics = rev (unique (map strategy metrics))"

definition summary :: "metric_row list \<Rightarrow> string \<Rightarrow> string \<Rightarrow> (string \<times> fl \<times> fl) list" where
  "summary metrics mo st =
     map (\<lambda>(name, column).
            (name, pd_mean (map column (select_rows metrics mo st)),
                   pd_std (map column (select_rows metrics mo st))))
         report_columns"

definition strategy_lines :: "(real \<Rightarrow> string) \<Rightarrow> metric_row list \<Rightarrow> string \<Rightarrow> string \<Rightarrow> log_record list" where
  "strategy_lines fmt metrics mo st =
     INFO ([CHR 0x0A, CHR 0x0A] @ ''Model: '' @ mo @ '', Strategy: '' @ st) #
     map (\<lambda>(name, mean, std).
            INFO (name @ '': '' @ format_2f fmt mean @ '' +- '' @ format_2f fmt std))
         (summary metrics mo st)"

definition strategy_latex :: "(real \<Rightarrow> string) \<Rightarrow> metric_row list \<Rightarrow> string \<Rightarrow> string \<Rightarrow> string" where
  "strategy_latex fmt metrics mo st =
     concat (map (\<lambda>(name, mean, std).
                    ''& '' @ format_2f fmt mean @ '' ('' @ format_2f fmt std @ '') '')
                 (summary metrics mo st))"

definition model_lines :: "(real \<Rightarrow> string) \<Rightarrow> metric_row list \<Rightarrow> string \<Rightarrow> log_record list" where
  "model_lines fmt metrics mo =
     concat (map (strategy_lines fmt metrics mo) (strategy_order metrics)) @
     [INFO (concat (map (strategy_latex fmt metrics mo) (strategy_order metrics)))]"

definition report :: "(real \<Rightarrow> string) \<Rightarrow> metric_row list \<Rightarrow> log_record list" where
  "report fmt metrics = concat (map (model_lines fmt metrics) (unique (map model metrics)))"

section \<open>The whole run\<close>

text \<open>
  \<^verbatim>\<open>run\<close> returns nothing; what it does is write to the log and, on the way, build
  the normalized table and the merged metrics table. The model returns the log records in
  order and the outcome: the early return on no file, the exception that ended the run,
  or the two tables the function held when it ended.
\<close>

definition run ::
    "(real \<Rightarrow> string) \<Rightarrow> (string \<times> prediction_record list) list \<Rightarrow> log_record list \<times> outcome" where
  "run fmt filepaths =
     (if filepaths = [] then ([WARNING ''No files found. Quitting...''], Quit)
      else
        let reading = fst (read_files filepaths);
            results = apply_sigmoid (snd (read_files filepaths))
        in (case compute_metrics results of
              Inl e \<Rightarrow> (reading, Raised e)
            | Inr metrics \<Rightarrow> (reading @ report fmt metrics, Done results metrics)))"

section \<open>Vocabulary of the properties\<close>

text \<open>
  First-seen order, written out on its own: the head, then the first-seen order of the
  rest without the head.
\<close>

fun first_seen :: "'a list \<Rightarrow> 'a list" where
  "first_seen [] = []"
| "first_seen (x # xs) = x # removeAll x (first_seen xs)"

text \<open>
  Mean and sample standard deviation (one degree of freedom removed) of a list of reals,
  as the textbook states them.
\<close>

definition mean :: "real list \<Rightarrow> real" where
  "mean vs = sum_list vs / real (length vs)"

definition sample_std :: "real list \<Rightarrow> real" where
  "sample_std vs = sqrt (sum_list (map (\<lambda>v. (v - mean vs)\<^sup>2) vs) / (real (length vs) - 1))"

text \<open>A metric value that is a number, and the number it is.\<close>

fun is_num :: "fl \<Rightarrow> bool" where
  "is_num (Num v) = True"
| "is_num NaN = False"

fun the_num :: "fl \<Rightarrow> real" where
  "the_num (Num v) = v"
| "the_num NaN = 0"

text \<open>A value within bounds; NaN is within none.\<close>

fun in_range :: "real \<Rightarrow> real \<Rightarrow> fl \<Rightarrow> bool" where
  "in_range lo hi (Num v) = (lo \<le> v \<and> v \<le> hi)"
| "in_range lo hi NaN = False"

text \<open>A group with a single class: no label 1, or no label 0.\<close>

definition single_class :: "int list \<Rightarrow> bool" where
  "single_class target = (list_all (\<lambda>t. t = 0) target \<or> list_all (\<lambda>t. t = 1) target)"

text \<open>What a run leaves of its outcome besides the table it loaded.\<close>

fun metrics_table :: "outcome \<Rightarrow> (error + metric_row list) option" where
  "metrics_table Quit = None"
| "metrics_table (Raised e) = Some (Inl e)"
| "metrics_table (Done results metrics) = Some (Inr metrics)"

section \<open>Worked examples\<close>

text \<open>
  One file with three rows: two rows of a model that already emits probabilities, around
  one row of a model that emits logits. After normalization the logit 0 is the
  probability 1/2; grouping sorts the keys, so the logit model's group comes first in the
  metrics table.
\<close>

definition example_table :: "prediction_record list" where
  "example_table =
     [\<lparr>seed = 1, user = ''u1'', model = ''lda'', strategy = ''B'', reading_task = ''nr'',
       predictions = 9 / 10, targets = 1\<rparr>,
      \<lparr>seed = 1, user = ''u1'', model = ''eegnet'', strategy = ''A'', reading_task = ''nr'',
       predictions = 0, targets = 1\<rparr>,
      \<lparr>seed = 1, user = ''u1'', model = ''lda'', strategy = ''B'', reading_task = ''nr'',
       predictions = 2 / 10, targets = 0\<rparr>]"

definition example_normalized :: "prediction_record list" where
  "example_normalized =
     [\<lparr>seed = 1, user = ''u1'', model = ''lda'', strategy = ''B'', reading_task = ''nr'',
       predictions = 9 / 10, targets = 1\<rparr>,
      \<lparr>seed = 1, user = ''u1'', model = ''eegnet'', strategy = ''A'', reading_task = ''nr'',
       predictions = 1 / 2, targets = 1\<rparr>,
      \<lparr>seed = 1, user = ''u1'', model = ''lda'', strategy = ''B'', reading_task = ''nr'',
       predictions = 2 / 10, targets = 0\<rparr>]"

definition example_metrics :: "metric_row list" where
  "example_metrics =
     [\<lparr>seed = 1, user = ''u1'', model = ''eegnet'', strategy = ''A'', reading_task = ''nr'',
       mcc = Num (- 1), precision = Num 0, kappa = Num 0, recall = Num 0, auc = Num 0\<rparr>,
      \<lparr>seed = 1, user = ''u1'', model = ''lda'', strategy = ''B'', reading_task = ''nr'',
       mcc = Num 1, precision = Num 1, kappa = Num 1, recall = Num 1, auc = Num 1\<rparr>]"

definition example_files :: "(string \<times> prediction_record list) list" where
  "example_files = [(''w_relevance_seed1.pkl'', example_table)]"

text \<open>Three metric rows of one model and strategy, one per seed.\<close>

definition report_example :: "metric_row list" where
  "report_example =
     [\<lparr>seed = 1, user = ''u1'', model = ''eegnet'', strategy = ''A'', reading_task = ''nr'',
       mcc = Num (6 / 10), precision = Num (5 / 10), kappa = NaN, recall = Num 1, auc = Num (8 / 10)\<rparr>,
      \<lparr>seed = 2, user = ''u1'', model = ''eegnet'', strategy = ''A'', reading_task = ''nr'',
       mcc = Num (7 / 10), precision = Num (7 / 10), kappa = Num (1 / 10), recall = Num 1, auc = Num (9 / 10)\<rparr>,
      \<lparr>seed = 3, user = ''u1'', model = ''eegnet'', strategy = ''A'', reading_task = ''nr'',
       mcc = Num (8 / 10), precision = Num (9 / 10), kappa = Num (2 / 10), recall = Num 1, auc = Num 1\<rparr>]"

text \<open>A table of one row, so of one group with one class, and its metrics.\<close>

definition single_class_group :: "prediction_record list" where
  "single_class_group =
     [\<lparr>seed = 1, user = ''u1'', model = ''lda'', strategy = ''B'', reading_task = ''nr'',
       predictions = 9 / 10, targets = 1\<rparr>]"

definition single_class_metrics :: "metric_row list" where
  "single_class_metrics =
     [\<lparr>seed = 1, user = ''u1'', model = ''lda'', strategy = ''B'', reading_task = ''nr'',
       mcc = Num 1, precision = Num 1, kappa = NaN, recall = Num 1, auc = Num 0\<rparr>]"

text \<open>Two rows of a logit model, with a large and a very negative logit.\<close>

definition saturated_table :: "prediction_record list" where
  "saturated_table =
     [\<lparr>seed = 1, user = ''u1'', model = ''eegnet'', strategy = ''A'', reading_task = ''nr'',
       predictions = 20, targets = 1\<rparr>,
      \<lparr>seed = 1, user = ''u1'', model = ''eegnet'', strategy = ''A'', reading_task = ''nr'',
       predictions = - 200, targets = 0\<rparr>]"

text \<open>A group of four rows that a threshold separates, of a model that emits
  probabilities, and its metrics.\<close>

definition perfect_group :: "prediction_record list" where
  "perfect_group =
     [\<lparr>seed = 1, user = ''u1'', model = ''lda'', strategy = ''B'', reading_task = ''nr'',
       predictions = 9 / 10, targets = 1\<rparr>,
      \<lparr>seed = 1, user = ''u1'', model = ''lda'', strategy = ''B'', reading_task = ''nr'',
       predictions = 2 / 10, targets = 0\<rparr>,
      \<lparr>seed = 1, user = ''u1'', model = ''lda'', strategy = ''B'', reading_task = ''nr'',
       predictions = 8 / 10, targets = 1\<rparr>,
      \<lparr>seed = 1, user = ''u1'', model = ''lda'', strategy = ''B'', reading_task = ''nr'',
       predictions = 1 / 10, targets = 0\<rparr>]"

definition perfect_metrics :: "metric_row list" where
  "perfect_metrics =
     [\<lparr>seed = 1, user = ''u1'', model = ''lda'', strategy = ''B'', reading_task = ''nr'',
       mcc = Num 1, precision = Num 1, kappa = Num 1, recall = Num 1, auc = Num 1\<rparr>]"

text \<open>A rendering of numbers that tells nothing apart, for runs whose report is not
  looked at.\<close>

definition example_fmt :: "real \<Rightarrow> string" where
  "example_fmt v = ''?''"

text \<open>Two files, to be listed in either order.\<close>

definition second_file :: "string \<times> prediction_record list" where
  "second_file =
     (''w_relevance_seed2.pkl'',
      [\<lparr>seed = 2, user = ''u1'', model = ''lda'', strategy = ''B'', reading_task = ''nr'',
        predictions = 4 / 10, targets = 1\<rparr>,
       \<lparr>seed = 1, user = ''u1'', model = ''lda'', strategy = ''B'', reading_task = ''nr'',
        predictions = 2 / 10, targets = 1\<rparr>])"

section \<open>Evaluating the model\<close>

lemmas metric_defs =
  valid_targets_def to_probabilities_def to_labels_def count_pairs_def confusion_matrix_def
  safe_divide_def binary_precision_def binary_recall_def matthews_corrcoef_reduce_def
  binary_matthews_corrcoef_def fl_divide_def kappa_observed_def kappa_expected_def
  cohen_kappa_reduce_def binary_cohen_kappa_def sort_descending_def rate_def binary_roc_def
  binary_auroc_def tensor_def

section \<open>Rounding to 32 bits\<close>

lemma pow2_powr: "pow2 e = 2 powr (of_int e)"
proof (cases "0 \<le> e")
  case True
  then have "real_of_int e = real (nat e)" by simp
  then have "2 powr (of_int e) = (2::real) ^ nat e"
    by (simp only: powr_realpow [of 2 "nat e", OF zero_less_numeral])
  then show ?thesis using True by (simp only: pow2_def if_True)
next
  case False
  then have "real_of_int e = - real (nat (- e))" by simp
  then have "2 powr (of_int e) = 1 / (2::real) ^ nat (- e)"
    by (simp only: powr_minus_divide powr_realpow [of 2 "nat (- e)", OF zero_less_numeral])
  then show ?thesis using False by (simp only: pow2_def if_False)
qed

lemma pow2_pos: "0 < pow2 e"
  by (simp only: pow2_powr powr_gt_zero)

lemma pow2_add: "pow2 (a + b) = pow2 a * pow2 b"
  by (simp only: pow2_powr of_int_add powr_add)

lemma pow2_mono: "a \<le> b \<Longrightarrow> pow2 a \<le> pow2 b"
  by (simp only: pow2_powr) (rule powr_mono, simp_all)

lemma pow2_of_int: "0 \<le> e \<Longrightarrow> pow2 e = of_int (2 ^ nat e)"
  by (simp add: pow2_def)

lemma round_half_even_le:
  assumes "z \<le> of_int n"
  shows "round_half_even z \<le> n"
proof (cases "z = of_int n")
  case True
  then show ?thesis by (simp add: round_half_even_def)
next
  case False
  with assms have "z < of_int n" by simp
  then have "\<lfloor>z\<rfloor> < n" by (simp add: floor_less_iff)
  then show ?thesis by (simp add: round_half_even_def)
qed

lemma round_half_even_ge:
  assumes "of_int n \<le> z"
  shows "n \<le> round_half_even z"
proof -
  have "n \<le> \<lfloor>z\<rfloor>" using assms by (simp add: le_floor_iff)
  then show ?thesis by (simp add: round_half_even_def)
qed

lemma round_half_even_int: "round_half_even (of_int n) = n"
  by (simp add: round_half_even_def)

lemma binade_eq:
  assumes "pow2 k \<le> \<bar>y\<bar>" and "\<bar>y\<bar> < pow2 (k + 1)"
  shows "binade y = max k (- 126)"
proof -
  have pos: "0 < \<bar>y\<bar>" using assms(1) pow2_pos [of k] by linarith
  have "2 powr (of_int k) \<le> \<bar>y\<bar>" using assms(1) by (simp only: pow2_powr)
  then have l: "of_int k \<le> log 2 \<bar>y\<bar>"
    using pos by (subst le_log_iff) simp_all
  have "\<bar>y\<bar> < 2 powr (of_int (k + 1))" using assms(2) by (simp only: pow2_powr)
  then have u: "log 2 \<bar>y\<bar> < of_int (k + 1)"
    using pos by (subst log_less_iff) simp_all
  from l u have "\<lfloor>log 2 \<bar>y\<bar>\<rfloor> = k" by (intro floor_unique) simp_all
  then show ?thesis by (simp only: binade_def)
qed

lemma round32_zero: "round32 0 = 0"
  by (simp add: round32_def)

lemma round32_nonneg:
  assumes "0 \<le> y"
  shows "0 \<le> round32 y"
proof -
  let ?u = "pow2 (binade y - 23)"
  have "0 \<le> \<bar>y\<bar> / ?u" using pow2_pos [of "binade y - 23"] by simp
  then have "of_int 0 \<le> \<bar>y\<bar> / ?u" by simp
  then have "0 \<le> round_half_even (\<bar>y\<bar> / ?u)" by (rule round_half_even_ge)
  then have "0 \<le> of_int (round_half_even (\<bar>y\<bar> / ?u)) * ?u"
    using pow2_pos [of "binade y - 23"] by simp
  moreover have "0 \<le> sgn y" using assms by (simp add: sgn_real_def)
  ultimately show ?thesis unfolding round32_def by (rule mult_nonneg_nonneg [rotated])
qed

lemma binade_le:
  assumes "0 < y" and "y < pow2 m" and "- 126 \<le> m"
  shows "binade y \<le> m"
proof -
  have "y < 2 powr (of_int m)" using assms(2) by (simp only: pow2_powr)
  then have "log 2 y < of_int m" using assms(1) by (subst log_less_iff) simp_all
  then have "\<lfloor>log 2 y\<rfloor> < m" by (simp add: floor_less_iff)
  with assms(1,3) show ?thesis by (simp add: binade_def)
qed

lemma binade_pow2:
  assumes "- 126 \<le> m"
  shows "binade (pow2 m) = m"
proof -
  have "\<bar>pow2 m\<bar> = pow2 m" using pow2_pos [of m] by simp
  moreover have "pow2 (m + 1) = pow2 m * 2"
    by (simp only: pow2_add) (simp add: pow2_def)
  then have "pow2 m < pow2 (m + 1)"
    using pow2_pos [of m] by simp
  ultimately have "binade (pow2 m) = max m (- 126)"
    by (intro binade_eq) simp_all
  with assms show ?thesis by simp
qed

lemma round32_pow2:
  assumes "- 126 \<le> m"
  shows "round32 (pow2 m) = pow2 m"
proof -
  have p: "0 < pow2 m" by (rule pow2_pos)
  have "pow2 m = pow2 (23 + (m - 23))" by simp
  also have "\<dots> = pow2 23 * pow2 (m - 23)" by (rule pow2_add)
  finally have s: "pow2 m = of_int (2 ^ 23) * pow2 (m - 23)" by (simp add: pow2_def)
  then have "pow2 m / pow2 (m - 23) = of_int (2 ^ 23)"
    using pow2_pos [of "m - 23"] by (simp add: field_simps)
  then have "round_half_even (\<bar>pow2 m\<bar> / pow2 (m - 23)) = 2 ^ 23"
    using p by (simp only: abs_of_pos round_half_even_int)
  with p s show ?thesis
    unfolding round32_def binade_pow2 [OF assms] by (simp add: sgn_real_def)
qed

lemma round32_le_pow2:
  assumes "0 \<le> y" and "y \<le> pow2 m" and "- 126 \<le> m"
  shows "round32 y \<le> pow2 m"
proof (cases "y = 0 \<or> y = pow2 m")
  case True
  then show ?thesis
    using round32_zero round32_pow2 [OF assms(3)] pow2_pos [of m] by auto
next
  case False
  with assms have y: "0 < y" "y < pow2 m" by simp_all
  let ?b = "binade y"
  let ?u = "pow2 (?b - 23)"
  have b: "?b \<le> m" using y assms(3) by (rule binade_le)
  have u: "0 < ?u" by (rule pow2_pos)
  have "pow2 m = pow2 ((m - ?b + 23) + (?b - 23))" by simp
  also have "\<dots> = pow2 (m - ?b + 23) * ?u" by (rule pow2_add)
  also have "pow2 (m - ?b + 23) = of_int (2 ^ nat (m - ?b + 23))"
    using b by (intro pow2_of_int) simp
  finally have m: "pow2 m = of_int (2 ^ nat (m - ?b + 23)) * ?u" .
  have "y / ?u \<le> pow2 m / ?u" using y u by (simp add: divide_right_mono)
  also have "\<dots> = of_int (2 ^ nat (m - ?b + 23))" using u by (simp add: m)
  finally have "round_half_even (y / ?u) \<le> 2 ^ nat (m - ?b + 23)"
    by (rule round_half_even_le)
  then have "of_int (round_half_even (y / ?u)) * ?u \<le> of_int (2 ^ nat (m - ?b + 23)) * ?u"
    using u by (intro mult_right_mono) simp_all
  then show ?thesis
    unfolding round32_def using y m by (simp add: sgn_real_def)
qed

lemma binade_ge:
  assumes "pow2 m \<le> y" and "- 126 \<le> m"
  shows "m \<le> binade y"
proof -
  have pos: "0 < y" using assms(1) pow2_pos [of m] by linarith
  have "2 powr (of_int m) \<le> y" using assms(1) by (simp only: pow2_powr)
  then have "of_int m \<le> log 2 y" using pos by (subst le_log_iff) simp_all
  then have "m \<le> \<lfloor>log 2 y\<rfloor>" by (simp add: le_floor_iff)
  with pos show ?thesis by (simp add: binade_def)
qed

lemma round32_ge_pow2:
  assumes "pow2 m \<le> y" and "- 126 \<le> m"
  shows "pow2 m \<le> round32 y"
proof -
  have y: "0 < y" using assms(1) pow2_pos [of m] by linarith
  let ?b = "binade y"
  let ?u = "pow2 (?b - 23)"
  have u: "0 < ?u" by (rule pow2_pos)
  have b: "m \<le> ?b" using assms by (rule binade_ge)
  have lo: "pow2 ?b \<le> y"
  proof -
    have "2 powr (of_int m) \<le> y" using assms(1) by (simp only: pow2_powr)
    then have "of_int m \<le> log 2 y" using y by (subst le_log_iff) simp_all
    then have "m \<le> \<lfloor>log 2 y\<rfloor>" by (simp add: le_floor_iff)
    with assms(2) y have "?b = \<lfloor>log 2 y\<rfloor>" by (simp add: binade_def)
    moreover have "of_int \<lfloor>log 2 y\<rfloor> \<le> log 2 y" by simp
    ultimately have "of_int ?b \<le> log 2 y" by simp
    then have "2 powr (of_int ?b) \<le> y" using y by (subst (asm) le_log_iff) simp_all
    then show ?thesis by (simp only: pow2_powr)
  qed
  have "pow2 ?b = pow2 (23 + (?b - 23))" by simp
  also have "\<dots> = pow2 23 * ?u" by (rule pow2_add)
  finally have s: "pow2 ?b = of_int (2 ^ 23) * ?u" by (simp add: pow2_def)
  have "of_int (2 ^ 23) = pow2 ?b / ?u" using u by (simp add: s)
  also have "\<dots> \<le> y / ?u" using lo u by (simp add: divide_right_mono)
  finally have "2 ^ 23 \<le> round_half_even (y / ?u)" by (rule round_half_even_ge)
  then have "of_int (2 ^ 23) * ?u \<le> of_int (round_half_even (y / ?u)) * ?u"
    using u by (intro mult_right_mono) simp_all
  then have "pow2 ?b \<le> round32 y"
    unfolding round32_def using y s by (simp add: sgn_real_def)
  moreover have "pow2 m \<le> pow2 ?b" using b by (rule pow2_mono)
  ultimately show ?thesis by linarith
qed

lemma round32_eval:
  assumes "pow2 k \<le> \<bar>y\<bar>" and "\<bar>y\<bar> < pow2 (k + 1)" and "- 126 \<le> k"
  shows "round32 y = sgn y * (of_int (round_half_even (\<bar>y\<bar> / pow2 (k - 23))) * pow2 (k - 23))"
proof -
  have "binade y = k" using binade_eq [OF assms(1,2)] assms(3) by simp
  then show ?thesis by (simp only: round32_def)
qed

lemma round32_exact:
  assumes "pow2 k \<le> \<bar>y\<bar>" and "\<bar>y\<bar> < pow2 (k + 1)" and "- 126 \<le> k"
    and "\<bar>y\<bar> / pow2 (k - 23) = of_int n"
  shows "round32 y = y"
proof -
  have u: "0 < pow2 (k - 23)" by (rule pow2_pos)
  from assms(4) u have "\<bar>y\<bar> = of_int n * pow2 (k - 23)" by (simp add: field_simps)
  then have "sgn y * (of_int n * pow2 (k - 23)) = y"
    by (simp add: sgn_real_def abs_real_def split: if_splits)
  then show ?thesis
    unfolding round32_eval [OF assms(1-3)] assms(4) round_half_even_int .
qed

lemma to_float32_finite:
  assumes "round32 y < 2 ^ 128" and "- (2 ^ 128) < round32 y"
  shows "to_float32 y = Finite (round32 y)"
  using assms by (simp add: to_float32_def)

lemma to_float32_unit:
  assumes "0 \<le> y" and "y \<le> 1"
  shows "to_float32 y = Finite (round32 y)" and "0 \<le> round32 y" and "round32 y \<le> 1"
proof -
  show 0: "0 \<le> round32 y" using assms(1) by (rule round32_nonneg)
  have "round32 y \<le> pow2 0" using assms by (intro round32_le_pow2) (simp_all add: pow2_def)
  then show 1: "round32 y \<le> 1" by (simp add: pow2_def)
  have "(1::real) < 2 ^ 128" by simp
  with 0 1 show "to_float32 y = Finite (round32 y)"
    by (intro to_float32_finite) linarith+
qed

lemma sigmoid_range: "0 \<le> sigmoid x \<and> sigmoid x \<le> 1"
proof (cases x)
  case (Finite v)
  show ?thesis
  proof (cases "to_float32 (exp (- v))")
    case e: (Finite e)
    then have "e = round32 (exp (- v))"
      by (simp add: to_float32_def split: if_splits)
    then have e0: "0 \<le> e" by (simp add: round32_nonneg)
    have "pow2 0 \<le> round32 (1 + e)"
      using e0 by (intro round32_ge_pow2) (simp_all add: pow2_def)
    then have s: "1 \<le> round32 (1 + e)" by (simp add: pow2_def)
    then have "0 \<le> 1 / round32 (1 + e)" "1 / round32 (1 + e) \<le> 1"
      by simp_all
    from to_float32_unit(2,3) [OF this] Finite e show ?thesis by simp
  next
    case PosInf
    with Finite show ?thesis by simp
  next
    case NegInf
    with Finite show ?thesis by simp
  qed
qed simp_all

lemma round32_one_plus_tiny:
  assumes "0 \<le> e" and "e \<le> pow2 (- 25)"
  shows "round32 (1 + e) = 1"
proof -
  have e: "e \<le> 1 / 2 ^ 25" using assms(2) by (simp add: pow2_def)
  have a: "\<bar>1 + e\<bar> = 1 + e" using assms(1) by simp
  have "pow2 0 \<le> \<bar>1 + e\<bar>" "\<bar>1 + e\<bar> < pow2 (0 + 1)"
    using assms(1) e by (simp_all add: pow2_def)
  from round32_eval [OF this] have
    r: "round32 (1 + e) = sgn (1 + e) * (of_int (round_half_even ((1 + e) / pow2 (- 23))) * pow2 (- 23))"
    by (simp add: a)
  let ?z = "(1 + e) / pow2 (- 23)"
  have z: "?z = 2 ^ 23 + e * 2 ^ 23" by (simp add: pow2_def algebra_simps)
  have small: "0 \<le> e * 2 ^ 23" "e * 2 ^ 23 \<le> 1 / 4"
    using assms(1) e by simp_all
  have f: "\<lfloor>?z\<rfloor> = 2 ^ 23"
    unfolding z using small by (intro floor_unique) simp_all
  have "round_half_even ?z = 2 ^ 23"
    unfolding round_half_even_def f using small by (simp add: z)
  then show ?thesis
    unfolding r using assms(1) by (simp add: pow2_def sgn_real_def)
qed

lemma exp_ge_power:
  fixes n :: nat
  assumes "0 < n"
  shows "2 ^ n \<le> exp (real n)"
proof -
  have "(1 + real n / real n) ^ n \<le> exp (real n)"
    by (rule exp_ge_one_plus_x_over_n_power_n) (use assms in simp_all)
  then show ?thesis using assms by simp
qed

lemma sigmoid_saturates_high: "sigmoid (to_float32 20) = 1"
proof -
  have x: "to_float32 20 = Finite 20"
  proof -
    have "round32 20 = 20"
      by (rule round32_exact [where k = 4 and n = 10485760]) (simp_all add: pow2_def)
    then show ?thesis by (simp add: to_float32_def)
  qed
  have "(1 + 20 / real 80) ^ 80 \<le> exp (20::real)"
    by (rule exp_ge_one_plus_x_over_n_power_n) simp_all
  moreover have "(2::real) ^ 25 \<le> (1 + 20 / real 80) ^ 80" by (simp add: power_divide)
  ultimately have big: "(2::real) ^ 25 \<le> exp 20" by linarith
  have "exp (- 20 :: real) = 1 / exp 20" by (simp add: exp_minus divide_simps)
  also have "\<dots> \<le> 1 / 2 ^ 25" using big by (intro divide_left_mono) simp_all
  finally have t: "exp (- 20 :: real) \<le> pow2 (- 25)" by (simp add: pow2_def)
  have p: "0 \<le> exp (- 20 :: real)" by simp
  have e1: "round32 (exp (- 20)) \<le> pow2 (- 25)"
    using p t by (rule round32_le_pow2) simp
  have e0: "0 \<le> round32 (exp (- 20))" using p by (rule round32_nonneg)
  have "exp (- 20 :: real) \<le> 1" by simp
  with p have e: "to_float32 (exp (- 20)) = Finite (round32 (exp (- 20)))"
    by (rule to_float32_unit(1))
  have s: "round32 (1 + round32 (exp (- 20))) = 1"
    using e0 e1 by (rule round32_one_plus_tiny)
  have one: "round32 1 = 1" using round32_pow2 [of 0] by (simp add: pow2_def)
  show ?thesis by (simp add: x e s one)
qed

lemma sigmoid_saturates_low: "sigmoid (to_float32 (- 200)) = 0"
proof -
  have "round32 (- 200) = - 200"
    by (rule round32_exact [where k = 7 and n = 13107200]) (simp_all add: pow2_def)
  then have x: "to_float32 (- 200) = Finite (- 200)" by (simp add: to_float32_def)
  have "(2::real) ^ 200 \<le> exp (real 200)" by (rule exp_ge_power) simp
  moreover have "(2::real) ^ 128 \<le> 2 ^ 200" by simp
  ultimately have "pow2 128 \<le> exp 200" by (simp add: pow2_def)
  then have "pow2 128 \<le> round32 (exp 200)" by (rule round32_ge_pow2) simp
  then have "to_float32 (exp 200) = PosInf" by (simp add: to_float32_def pow2_def)
  with x show ?thesis by simp
qed

lemma round_half_even_error: "\<bar>of_int (round_half_even z) - z\<bar> \<le> 1 / 2"
proof -
  have "of_int \<lfloor>z\<rfloor> \<le> z" "z < of_int \<lfloor>z\<rfloor> + 1" by linarith+
  then show ?thesis by (auto simp: round_half_even_def abs_le_iff)
qed

lemma binade_abs: "binade \<bar>y\<bar> = binade y"
  by (simp add: binade_def)

lemma pow2_binade_le:
  assumes "pow2 (- 126) \<le> y"
  shows "pow2 (binade y) \<le> y"
proof -
  have y: "0 < y" using assms pow2_pos [of "- 126"] by linarith
  have "2 powr (of_int (- 126)) \<le> y" using assms by (simp only: pow2_powr)
  then have "of_int (- 126) \<le> log 2 y" using y by (subst le_log_iff) simp_all
  then have "- 126 \<le> \<lfloor>log 2 y\<rfloor>" by (simp add: le_floor_iff)
  with y have "binade y = \<lfloor>log 2 y\<rfloor>" by (simp add: binade_def)
  moreover have "of_int \<lfloor>log 2 y\<rfloor> \<le> log 2 y" by simp
  ultimately have "of_int (binade y) \<le> log 2 y" by simp
  then have "2 powr (of_int (binade y)) \<le> y" using y by (subst (asm) le_log_iff) simp_all
  then show ?thesis by (simp only: pow2_powr)
qed

lemma round32_error: "\<bar>round32 y - y\<bar> \<le> pow2 (binade y - 24)"
proof (cases "y = 0")
  case True
  then show ?thesis using pow2_pos [of "binade 0 - 24"] by (simp add: round32_zero)
next
  case False
  let ?u = "pow2 (binade y - 23)"
  let ?n = "real_of_int (round_half_even (\<bar>y\<bar> / ?u))"
  have u: "0 < ?u" by (rule pow2_pos)
  have "\<bar>?n - \<bar>y\<bar> / ?u\<bar> \<le> 1 / 2" by (rule round_half_even_error)
  then have "\<bar>?n - \<bar>y\<bar> / ?u\<bar> * ?u \<le> 1 / 2 * ?u"
    using u by (intro mult_right_mono) simp_all
  moreover have "\<bar>?n - \<bar>y\<bar> / ?u\<bar> * ?u = \<bar>(?n - \<bar>y\<bar> / ?u) * ?u\<bar>"
    using u by (simp add: abs_mult)
  moreover have "(?n - \<bar>y\<bar> / ?u) * ?u = ?n * ?u - \<bar>y\<bar>"
    using u by (simp add: field_simps)
  ultimately have e: "\<bar>?n * ?u - \<bar>y\<bar>\<bar> \<le> ?u / 2" by simp
  have "round32 y - y = sgn y * (?n * ?u - \<bar>y\<bar>)"
    unfolding round32_def by (simp add: algebra_simps sgn_real_def abs_real_def)
  then have "\<bar>round32 y - y\<bar> = \<bar>?n * ?u - \<bar>y\<bar>\<bar>"
    using False by (simp add: abs_mult sgn_real_def)
  moreover have "?u = pow2 (binade y - 24) * 2"
  proof -
    have "?u = pow2 ((binade y - 24) + 1)" by simp
    also have "\<dots> = pow2 (binade y - 24) * pow2 1" by (rule pow2_add)
    finally show ?thesis by (simp add: pow2_def)
  qed
  ultimately show ?thesis using e by simp
qed

lemma round32_relative_error: "\<bar>round32 y - y\<bar> \<le> \<bar>y\<bar> / 2 ^ 24 + pow2 (- 150)"
proof (cases "pow2 (- 126) \<le> \<bar>y\<bar>")
  case True
  from pow2_binade_le [OF True] have "pow2 (binade y) \<le> \<bar>y\<bar>"
    by (simp only: binade_abs)
  moreover have "pow2 (binade y - 24) = pow2 (binade y) * pow2 (- 24)"
    using pow2_add [of "binade y" "- 24"] by simp
  ultimately have "pow2 (binade y - 24) \<le> \<bar>y\<bar> / 2 ^ 24"
    by (simp add: pow2_def)
  with round32_error [of y] pow2_pos [of "- 150"] show ?thesis by linarith
next
  case False
  show ?thesis
  proof (cases "y = 0")
    case True
    then show ?thesis using pow2_pos [of "- 150"] by (simp add: round32_zero)
  next
    case nz: False
    with False have "0 < \<bar>y\<bar>" "\<bar>y\<bar> < pow2 (- 126)" by simp_all
    then have "binade \<bar>y\<bar> \<le> - 126" by (rule binade_le) simp
    moreover have "- 126 \<le> binade y" by (simp add: binade_def)
    ultimately have "binade y = - 126" by (simp add: binade_abs)
    with round32_error [of y] have "\<bar>round32 y - y\<bar> \<le> pow2 (- 150)" by simp
    then show ?thesis by (simp add: add_increasing)
  qed
qed

lemma sigmoid_accuracy: "\<bar>sigmoid (Finite v) - 1 / (1 + exp (- v))\<bar> \<le> 1 / 2 ^ 21"
proof -
  define E where "E = exp (- v)"
  define s where "s = 1 / (1 + E)"
  define tiny :: real where "tiny = pow2 (- 150)"
  have E: "0 < E" by (simp add: E_def)
  have s: "0 < s" "s \<le> 1" using E by (simp_all add: s_def add_pos_pos)
  have tiny: "0 < tiny" "tiny = 1 / 2 ^ 150" by (simp_all add: tiny_def pow2_def)
  show ?thesis
  proof (cases "to_float32 E")
    case (Finite e)
    then have e: "e = round32 E" by (simp add: to_float32_def split: if_splits)
    have e0: "0 \<le> e" using E by (simp add: e round32_nonneg)
    have eE: "\<bar>e - E\<bar> \<le> E / 2 ^ 24 + tiny"
      using round32_relative_error [of E] E by (simp add: e tiny_def)
    define d where "d = round32 (1 + e)"
    have "pow2 0 \<le> d" unfolding d_def using e0 by (intro round32_ge_pow2) (simp_all add: pow2_def)
    then have d1: "1 \<le> d" by (simp add: pow2_def)
    have dE: "\<bar>d - (1 + e)\<bar> \<le> (1 + e) / 2 ^ 24 + tiny"
      using round32_relative_error [of "1 + e"] e0 by (simp add: d_def tiny_def)
    define q where "q = round32 (1 / d)"
    have inv: "0 < 1 / d" "1 / d \<le> 1" using d1 by simp_all
    have qd: "\<bar>q - 1 / d\<bar> \<le> 1 / 2 ^ 24 + tiny"
    proof -
      have "\<bar>q - 1 / d\<bar> \<le> \<bar>1 / d\<bar> / 2 ^ 24 + tiny"
        using round32_relative_error [of "1 / d"] by (simp add: q_def tiny_def)
      moreover have "\<bar>1 / d\<bar> / 2 ^ 24 \<le> 1 / 2 ^ 24"
        using inv by (simp add: divide_right_mono)
      ultimately show ?thesis by linarith
    qed
    have le: "1 + e \<le> 2 * (1 + E)"
      using eE E tiny by (simp add: abs_le_iff) 
    have num: "\<bar>(1 + E) - d\<bar> \<le> 3 * (1 + E) / 2 ^ 24 + 2 * tiny"
    proof -
      have "\<bar>(1 + E) - d\<bar> \<le> \<bar>e - E\<bar> + \<bar>d - (1 + e)\<bar>" by linarith
      also have "\<dots> \<le> (E / 2 ^ 24 + tiny) + ((1 + e) / 2 ^ 24 + tiny)"
        using eE dE by linarith
      also have "\<dots> \<le> (E / 2 ^ 24 + tiny) + (2 * (1 + E) / 2 ^ 24 + tiny)"
        using le by (simp add: divide_right_mono)
      also have "\<dots> \<le> 3 * (1 + E) / 2 ^ 24 + 2 * tiny"
        using E by (simp add: field_simps)
      finally show ?thesis .
    qed
    have ds: "\<bar>1 / d - s\<bar> \<le> 3 / 2 ^ 24 + 2 * tiny"
    proof -
      have pos: "0 < d * (1 + E)" using d1 E by (intro mult_pos_pos) linarith+
      have "1 / d - s = ((1 + E) - d) / (d * (1 + E))"
        using d1 E by (simp add: s_def field_simps)
      then have "\<bar>1 / d - s\<bar> = \<bar>(1 + E) - d\<bar> / (d * (1 + E))"
        using pos by (simp add: abs_divide)
      also have "\<dots> \<le> (3 * (1 + E) / 2 ^ 24 + 2 * tiny) / (d * (1 + E))"
        using num pos by (simp add: divide_right_mono)
      also have "\<dots> = 3 * (1 + E) / 2 ^ 24 / (d * (1 + E)) + 2 * tiny / (d * (1 + E))"
        by (rule add_divide_distrib)
      also have "\<dots> = (3 / 2 ^ 24) / d + 2 * tiny / (d * (1 + E))"
      proof -
        have "1 + E \<noteq> 0" using E by simp
        then have "(3 / 2 ^ 24 * (1 + E)) / (d * (1 + E)) = (3 / 2 ^ 24) / d"
          by (rule mult_divide_mult_cancel_right)
        then show ?thesis by simp
      qed
      also have "\<dots> \<le> 3 / 2 ^ 24 + 2 * tiny"
      proof (rule add_mono)
        show "3 / 2 ^ 24 / d \<le> 3 / 2 ^ 24"
          using d1 by (simp add: field_simps)
        have "1 * 1 \<le> d * (1 + E)" using d1 E by (intro mult_mono) simp_all
        then have "1 \<le> d * (1 + E)" by simp
        then have "2 * tiny / (d * (1 + E)) \<le> 2 * tiny / 1"
          using tiny(1) by (intro divide_left_mono) simp_all
        then show "2 * tiny / (d * (1 + E)) \<le> 2 * tiny" by simp
      qed
      finally show ?thesis .
    qed
    have "sigmoid (Finite v) = q"
      using Finite by (simp add: E_def q_def d_def)
    moreover have "\<bar>q - s\<bar> \<le> \<bar>q - 1 / d\<bar> + \<bar>1 / d - s\<bar>" by linarith
    moreover have "(1 / 2 ^ 24 + tiny) + (3 / 2 ^ 24 + 2 * tiny) \<le> 1 / 2 ^ 21"
      by (simp add: tiny(2))
    ultimately show ?thesis
      using qd ds unfolding s_def E_def by linarith
  next
    case PosInf
    then have big: "2 ^ 128 \<le> round32 E" by (simp add: to_float32_def split: if_splits)
    have "pow2 127 < E"
    proof (rule ccontr)
      assume "\<not> pow2 127 < E"
      then have "E \<le> pow2 127" by simp
      with E have "round32 E \<le> pow2 127" by (intro round32_le_pow2) simp_all
      with big show False by (simp add: pow2_def)
    qed
    then have "2 ^ 127 < 1 + E" by (simp add: pow2_def)
    then have "1 / (1 + E) < 1 / 2 ^ 127" by (intro divide_strict_left_mono) simp_all 
    moreover have "(1::real) / 2 ^ 127 \<le> 1 / 2 ^ 21" by simp
    moreover have "sigmoid (Finite v) = 0" using PosInf by (simp add: E_def)
    ultimately show ?thesis using s unfolding s_def E_def by simp
  next
    case NegInf
    then have "round32 E \<le> - (2 ^ 128)" by (simp add: to_float32_def split: if_splits)
    moreover have "0 \<le> round32 E" using E by (simp add: round32_nonneg)
    ultimately show ?thesis by simp
  qed
qed

lemma to_float32_examples:
  "to_float32 0 = Finite 0"
  "to_float32 1 = Finite 1"
  "to_float32 (1 / 2) = Finite (1 / 2)"
  "to_float32 (9 / 10) = Finite (15099494 / 2 ^ 24)"
  "to_float32 (4 / 5) = Finite (13421773 / 2 ^ 24)"
  "to_float32 (1 / 5) = Finite (13421773 / 2 ^ 26)"
  "to_float32 (1 / 10) = Finite (13421773 / 2 ^ 27)"
proof -
  show "to_float32 0 = Finite 0"
    by (simp add: to_float32_def round32_zero)
  have "round32 1 = 1" using round32_pow2 [of 0] by (simp add: pow2_def)
  then show "to_float32 1 = Finite 1"
    by (simp add: to_float32_def)
  have "round32 (1 / 2) = 1 / 2" using round32_pow2 [of "- 1"] by (simp add: pow2_def)
  then show "to_float32 (1 / 2) = Finite (1 / 2)"
    by (simp add: to_float32_def)
  have "round32 (9 / 10) = 15099494 / 2 ^ 24"
    by (subst round32_eval [where k = "- 1"])
      (simp_all add: pow2_def round_half_even_def sgn_real_def)
  then show "to_float32 (9 / 10) = Finite (15099494 / 2 ^ 24)"
    by (simp add: to_float32_def)
  have "round32 (4 / 5) = 13421773 / 2 ^ 24"
    by (subst round32_eval [where k = "- 1"])
      (simp_all add: pow2_def round_half_even_def sgn_real_def)
  then show "to_float32 (4 / 5) = Finite (13421773 / 2 ^ 24)"
    by (simp add: to_float32_def)
  have "round32 (1 / 5) = 13421773 / 2 ^ 26"
    by (subst round32_eval [where k = "- 3"])
      (simp_all add: pow2_def round_half_even_def sgn_real_def)
  then show "to_float32 (1 / 5) = Finite (13421773 / 2 ^ 26)"
    by (simp add: to_float32_def)
  have "round32 (1 / 10) = 13421773 / 2 ^ 27"
    by (subst round32_eval [where k = "- 4"])
      (simp_all add: pow2_def round_half_even_def sgn_real_def)
  then show "to_float32 (1 / 10) = Finite (13421773 / 2 ^ 27)"
    by (simp add: to_float32_def)
qed

lemma sigmoid_zero: "sigmoid (to_float32 0) = 1 / 2"
proof -
  have "round32 2 = 2" using round32_pow2 [of 1] by (simp add: pow2_def)
  moreover have "round32 (1 / 2) = 1 / 2" using round32_pow2 [of "- 1"] by (simp add: pow2_def)
  ultimately show ?thesis by (simp add: to_float32_examples)
qed

text \<open>
  Two scores next to a number that decides: 0.50000001 is the 32-bit float 0.5, which is
  not above the threshold, and 1.00000001 is the 32-bit float 1, which is within
  \<open>[0, 1]\<close>, so that a group holding it is still taken for probabilities.
\<close>

lemma to_float32_next_to_half: "to_float32 (50000001 / 100000000) = Finite (1 / 2)"
proof -
  have "round32 (50000001 / 100000000) = 1 / 2"
    by (subst round32_eval [where k = "- 1"])
      (simp_all add: pow2_def round_half_even_def sgn_real_def)
  then show ?thesis by (simp add: to_float32_def)
qed

lemma to_float32_next_to_one: "to_float32 (100000001 / 100000000) = Finite 1"
proof -
  have "round32 (100000001 / 100000000) = 1"
    by (subst round32_eval [where k = 0])
      (simp_all add: pow2_def round_half_even_def sgn_real_def)
  then show ?thesis by (simp add: to_float32_def)
qed

lemma recall_next_to_threshold:
  "on_group binary_recall
     [\<lparr>seed = 1, user = ''u1'', model = ''lda'', strategy = ''B'', reading_task = ''nr'',
       predictions = 50000001 / 100000000, targets = 1\<rparr>] = Inr (Num 0)"
  by (simp add: on_group_def to_float32_next_to_half metric_defs)

lemma precision_next_to_one:
  "on_group binary_precision
     [\<lparr>seed = 1, user = ''u1'', model = ''lda'', strategy = ''B'', reading_task = ''nr'',
       predictions = 100000001 / 100000000, targets = 1\<rparr>,
      \<lparr>seed = 1, user = ''u1'', model = ''lda'', strategy = ''B'', reading_task = ''nr'',
       predictions = 1 / 5, targets = 0\<rparr>] = Inr (Num 1)"
  by (simp add: on_group_def to_float32_next_to_one to_float32_examples metric_defs)


section \<open>Empty input\<close>

text \<open>
  C3. When the pattern matches no file, the run logs the one warning and returns: the
  outcome is \<open>Quit\<close> (not an exception), nothing is read, no table is normalized, no
  metric is computed and no report line is logged.
\<close>

theorem run_no_files:
  "run fmt [] = ([WARNING ''No files found. Quitting...''], Quit)"
  by (simp add: run_def)

section \<open>Normalizer\<close>

lemma loc_assign_masked:
  "loc_assign (map P rs) (map f (loc_mask (map P rs) rs)) rs =
     map (\<lambda>r. if P r then r\<lparr>predictions := f r\<rparr> else r) rs"
proof (induction rs)
  case Nil
  show ?case by (simp add: loc_mask_def)
next
  case (Cons r rs)
  then show ?case by (cases "P r") (simp_all add: loc_mask_def)
qed

lemma apply_sigmoid_map:
  "apply_sigmoid results =
     map (\<lambda>r. if model r \<in> set logit_models
               then r\<lparr>predictions := sigmoid (to_float32 (predictions r))\<rparr> else r)
       results"
  unfolding apply_sigmoid_def isin_mask_def Let_def by (rule loc_assign_masked)

subsection \<open>The worked example, evaluated\<close>

lemma example_apply_sigmoid: "apply_sigmoid example_table = example_normalized"
  by (simp add: apply_sigmoid_map example_table_def example_normalized_def logit_models_def
      sigmoid_zero)

lemma example_groupby:
  "groupby example_normalized =
     [((1, ''u1'', ''eegnet'', ''A'', ''nr''), [example_normalized ! 1]),
      ((1, ''u1'', ''lda'', ''B'', ''nr''), [example_normalized ! 0, example_normalized ! 2])]"
  by (simp add: groupby_def group_rows_def key_of_def example_normalized_def)

lemma example_compute_metrics: "compute_metrics example_normalized = Inr example_metrics"
  unfolding compute_metrics_def example_groupby Let_def
  by (simp add: example_normalized_def on_group_def to_float32_examples metric_defs
      bind_result_def merge_metrics_def merge_on_def to_metric_row_def example_metrics_def)

lemma example_run:
  "run fmt example_files =
     (INFO ''Reading w_relevance_seed1.pkl'' # report fmt example_metrics,
      Done example_normalized example_metrics)"
  by (simp add: run_def read_files_def example_files_def example_apply_sigmoid
      example_compute_metrics)

subsection \<open>What the normalizer writes\<close>

text \<open>
  The claim C2 as the specification words it: the value written is \<open>1 / (1 + exp (- x))\<close>
  and lies strictly between 0 and 1. In 32-bit arithmetic the logit 20 gives exactly 1,
  which is neither, and the logit -200 gives exactly 0.
\<close>

theorem normalizer_saturates:
  "model (saturated_table ! 0) = ''eegnet'' \<and>
   predictions (saturated_table ! 0) = 20 \<and>
   predictions (apply_sigmoid saturated_table ! 0) = 1 \<and>
   predictions (apply_sigmoid saturated_table ! 0) \<noteq> 1 / (1 + exp (- 20)) \<and>
   model (saturated_table ! 1) = ''eegnet'' \<and>
   predictions (saturated_table ! 1) = - 200 \<and>
   predictions (apply_sigmoid saturated_table ! 1) = 0"
proof -
  have "1 / (1 + exp (- 20 :: real)) < 1"
    by (simp add: add_pos_pos)
  then show ?thesis
    by (simp add: apply_sigmoid_map saturated_table_def logit_models_def
        sigmoid_saturates_high sigmoid_saturates_low)
qed

text \<open>
  C2, amended. The allow-list is the three tags eegnet, lstm and uercm. Normalization
  keeps the number of rows; a row whose model is on the list gets, for its old
  prediction \<open>x\<close>, the 32-bit evaluation of \<open>1 / (1 + exp (- x))\<close>: the sigmoid of \<open>x\<close> as
  a 32-bit float, a value from 0 to 1, both ends included, and within \<open>2 ^ - 21\<close> of the
  exact sigmoid of the float; a row whose model is not on the list keeps its prediction.
\<close>

theorem normalizer_sigmoid_on_allow_list:
  "logit_models = [''eegnet'', ''lstm'', ''uercm''] \<and>
   length (apply_sigmoid results) = length results \<and>
   (\<forall>i < length results.
      (model (results ! i) \<in> set logit_models \<longrightarrow>
         predictions (apply_sigmoid results ! i) = sigmoid (to_float32 (predictions (results ! i))) \<and>
         0 \<le> predictions (apply_sigmoid results ! i) \<and>
         predictions (apply_sigmoid results ! i) \<le> 1 \<and>
         (\<forall>v. to_float32 (predictions (results ! i)) = Finite v \<longrightarrow>
            \<bar>predictions (apply_sigmoid results ! i) - 1 / (1 + exp (- v))\<bar> \<le> 1 / 2 ^ 21)) \<and>
      (model (results ! i) \<notin> set logit_models \<longrightarrow>
         predictions (apply_sigmoid results ! i) = predictions (results ! i)))"
proof -
  have "\<bar>sigmoid x - 1 / (1 + exp (- v))\<bar> \<le> 1 / 2 ^ 21" if "x = Finite v" for x v
    unfolding that by (rule sigmoid_accuracy)
  then show ?thesis
    using sigmoid_range by (simp add: apply_sigmoid_map logit_models_def)
qed

theorem normalizer_sigmoid_on_allow_list_witness:
  "predictions (apply_sigmoid example_table ! 1) = 1 / 2 \<and>
   predictions (apply_sigmoid example_table ! 0) = 9 / 10"
proof -
  have len: "length example_table = 3"
    by (simp add: example_table_def)
  have m0: "model (example_table ! 1) \<in> set logit_models"
    and m1: "model (example_table ! 0) \<notin> set logit_models"
    and p0: "predictions (example_table ! 1) = 0"
    and p1: "predictions (example_table ! 0) = 9 / 10"
    by (simp_all add: example_table_def logit_models_def)
  from normalizer_sigmoid_on_allow_list [of example_table] len m0 m1 p0 p1
  show ?thesis by (simp add: sigmoid_zero)
qed

text \<open>
  C7. Normalization writes nothing but the \<open>predictions\<close> of rows whose model is on the
  allow-list: the number of rows, the five key columns and the targets of every row are
  kept, and a row whose model is not on the list is kept whole. The table the run ends
  with is the normalized table: no later step writes to it.
\<close>

theorem normalizer_frame:
  "(run fmt filepaths = (lg, Done results metrics) \<longrightarrow>
      results = apply_sigmoid (concat (map snd filepaths))) \<and>
   length (apply_sigmoid loaded) = length loaded \<and>
   (\<forall>i < length loaded.
      seed (apply_sigmoid loaded ! i) = seed (loaded ! i) \<and>
      user (apply_sigmoid loaded ! i) = user (loaded ! i) \<and>
      model (apply_sigmoid loaded ! i) = model (loaded ! i) \<and>
      strategy (apply_sigmoid loaded ! i) = strategy (loaded ! i) \<and>
      reading_task (apply_sigmoid loaded ! i) = reading_task (loaded ! i) \<and>
      targets (apply_sigmoid loaded ! i) = targets (loaded ! i) \<and>
      (model (loaded ! i) \<notin> set logit_models \<longrightarrow> apply_sigmoid loaded ! i = loaded ! i))"
proof -
  have "results = apply_sigmoid (concat (map snd filepaths))"
    if "run fmt filepaths = (lg, Done results metrics)"
    using that
    by (auto simp: run_def read_files_def Let_def split: if_splits sum.splits)
  then show ?thesis
    by (simp add: apply_sigmoid_map)
qed

theorem normalizer_frame_witness:
  "run (\<lambda>v. ''?'') example_files =
     (INFO ''Reading w_relevance_seed1.pkl'' # report (\<lambda>v. ''?'') example_metrics,
      Done example_normalized example_metrics) \<and>
   example_normalized = apply_sigmoid (concat (map snd example_files)) \<and>
   targets (apply_sigmoid example_table ! 1) = 1 \<and>
   model (apply_sigmoid example_table ! 1) = ''eegnet'' \<and>
   apply_sigmoid example_table ! 2 = example_table ! 2"
proof -
  have r: "run (\<lambda>v. ''?'') example_files =
     (INFO ''Reading w_relevance_seed1.pkl'' # report (\<lambda>v. ''?'') example_metrics,
      Done example_normalized example_metrics)"
    by (rule example_run)
  have len: "length example_table = 3"
    by (simp add: example_table_def)
  have m: "model (example_table ! 2) \<notin> set logit_models"
    and t: "targets (example_table ! 1) = 1"
    and e: "model (example_table ! 1) = ''eegnet''"
    by (simp_all add: example_table_def logit_models_def)
  from normalizer_frame [of "\<lambda>v. ''?''" example_files _ example_normalized example_metrics
      example_table] r len m t e
  show ?thesis by simp
qed

section \<open>Reporter\<close>

lemma set_first_seen: "set (first_seen xs) = set xs"
  by (induction xs) auto

lemma first_seen_removeAll: "removeAll x (first_seen ys) = first_seen (removeAll x ys)"
proof (induction ys)
  case Nil
  show ?case by simp
next
  case (Cons y ys)
  show ?case
  proof (cases "y = x")
    case True
    have "removeAll x (first_seen (removeAll x ys)) = first_seen (removeAll x ys)"
      by (rule removeAll_id) (simp add: set_first_seen)
    with True Cons show ?thesis by simp
  next
    case False
    have "removeAll x (removeAll y (first_seen ys)) = removeAll y (removeAll x (first_seen ys))"
      by (simp add: removeAll_filter_not_eq conj_commute)
    with False Cons show ?thesis by simp
  qed
qed

lemma unique_scan_first_seen:
  "unique_scan seen xs = rev seen @ first_seen (filter (\<lambda>x. x \<notin> set seen) xs)"
proof (induction xs arbitrary: seen)
  case Nil
  show ?case by simp
next
  case (Cons x xs)
  show ?case
  proof (cases "x \<in> set seen")
    case True
    with Cons show ?thesis by simp
  next
    case False
    have "filter (\<lambda>y. y \<notin> set (x # seen)) xs = removeAll x (filter (\<lambda>y. y \<notin> set seen) xs)"
      by (induction xs) auto
    with False Cons [of "x # seen"] show ?thesis
      by (simp add: first_seen_removeAll)
  qed
qed

lemma unique_first_seen: "unique xs = first_seen xs"
  by (simp add: unique_def unique_scan_first_seen)

lemma distinct_first_seen: "distinct (first_seen xs)"
  by (induction xs) (auto simp: distinct_removeAll)

text \<open>
  C5. The report walks the models in first-seen order of the merged table, and for every
  model it walks the strategies in the reverse of their first-seen order in the merged
  table, both for the log lines and for the LaTeX line.
\<close>

theorem strategies_reverse_first_seen:
  "report fmt metrics =
     concat (map (model_lines fmt metrics) (first_seen (map model metrics))) \<and>
   model_lines fmt metrics mo =
     concat (map (strategy_lines fmt metrics mo) (rev (first_seen (map strategy metrics)))) @
     [INFO (concat (map (strategy_latex fmt metrics mo) (rev (first_seen (map strategy metrics)))))]"
  by (simp add: report_def model_lines_def strategy_order_def unique_first_seen)

lemma dropna_map_Num: "dropna (map Num vs) = vs"
  by (induction vs) simp_all

lemma pd_mean_Num: "pd_mean (map Num vs) = (if vs = [] then NaN else Num (mean vs))"
  by (simp add: pd_mean_def dropna_map_Num mean_def)

lemma pd_std_Num: "pd_std (map Num vs) = (if length vs \<le> 1 then NaN else Num (sample_std vs))"
proof -
  have "(\<lambda>v. (mean vs - v)\<^sup>2) = (\<lambda>v. (v - mean vs)\<^sup>2)"
    by (rule ext) (simp add: power2_commute)
  moreover have "real (length vs - 1) = real (length vs) - 1" if "\<not> length vs \<le> 1"
    using that by (simp add: of_nat_diff)
  ultimately show ?thesis
    by (simp add: pd_std_def dropna_map_Num sample_std_def Let_def mean_def)
qed

lemma summary_unfold:
  "summary metrics mo st =
     [(''auc'', pd_mean (map auc (select_rows metrics mo st)), pd_std (map auc (select_rows metrics mo st))),
      (''precision'', pd_mean (map precision (select_rows metrics mo st)),
         pd_std (map precision (select_rows metrics mo st))),
      (''recall'', pd_mean (map recall (select_rows metrics mo st)),
         pd_std (map recall (select_rows metrics mo st)))]"
  by (simp add: summary_def report_columns_def)

lemma select_rows_update:
  "select_rows (map (\<lambda>r. r\<lparr>mcc := m r, kappa := k r\<rparr>) metrics) mo st =
     map (\<lambda>r. r\<lparr>mcc := m r, kappa := k r\<rparr>) (select_rows metrics mo st)"
  by (simp add: select_rows_def filter_map comp_def)

lemma summary_update:
  "summary (map (\<lambda>r. r\<lparr>mcc := m r, kappa := k r\<rparr>) metrics) mo st = summary metrics mo st"
  by (simp add: summary_unfold select_rows_update comp_def)

lemma strategy_lines_update:
  "strategy_lines fmt (map (\<lambda>r. r\<lparr>mcc := m r, kappa := k r\<rparr>) metrics) mo =
     strategy_lines fmt metrics mo"
  by (rule ext) (simp add: strategy_lines_def summary_update)

lemma strategy_latex_update:
  "strategy_latex fmt (map (\<lambda>r. r\<lparr>mcc := m r, kappa := k r\<rparr>) metrics) mo =
     strategy_latex fmt metrics mo"
  by (rule ext) (simp add: strategy_latex_def summary_update)

lemma model_lines_update:
  "model_lines fmt (map (\<lambda>r. r\<lparr>mcc := m r, kappa := k r\<rparr>) metrics) =
     model_lines fmt metrics"
  by (rule ext)
    (simp add: model_lines_def strategy_lines_update strategy_latex_update strategy_order_def
      comp_def)

lemma report_update:
  "report fmt (map (\<lambda>r. r\<lparr>mcc := m r, kappa := k r\<rparr>) metrics) = report fmt metrics"
  by (simp add: report_def model_lines_update comp_def)

lemma example_mean_std:
  "mean [8 / 10, 9 / 10, 1] = 9 / 10" "sample_std [8 / 10, 9 / 10, 1] = 1 / 10"
proof -
  show m: "mean [8 / 10, 9 / 10, 1] = 9 / 10" by (simp add: mean_def)
  have "sqrt ((1 / 10)\<^sup>2) = \<bar>1 / 10 :: real\<bar>" by (rule real_sqrt_abs)
  then have "sqrt ((1 / 10)\<^sup>2) = 1 / 10" by simp
  moreover have "sum_list (map (\<lambda>v. (v - 9 / 10)\<^sup>2) [8 / 10, 9 / 10, 1]) / (real (length [8 / 10, 9 / 10, 1 :: real]) - 1) = (1 / 10)\<^sup>2"
    by (simp add: power2_eq_square)
  ultimately show "sample_std [8 / 10, 9 / 10, 1] = 1 / 10"
    unfolding sample_std_def m by simp
qed

lemma pd_mean_Nil: "pd_mean [] = NaN"
  by (simp add: pd_mean_def)

lemma pd_std_Nil: "pd_std [] = NaN"
  by (simp add: pd_std_def)

lemma summary_no_rows:
  assumes "select_rows metrics mo st = []"
  shows "summary metrics mo st =
           [(''auc'', NaN, NaN), (''precision'', NaN, NaN), (''recall'', NaN, NaN)]"
  by (simp add: summary_unfold assms pd_mean_Nil pd_std_Nil)

lemma report_contains_strategy_lines:
  assumes mo: "mo \<in> set (map model metrics)" and st: "st \<in> set (map strategy metrics)"
  shows "\<exists>before after. report fmt metrics = before @ strategy_lines fmt metrics mo st @ after"
proof -
  from mo have "mo \<in> set (first_seen (map model metrics))"
    by (simp only: set_first_seen)
  then obtain ms1 ms2 where ms: "first_seen (map model metrics) = ms1 @ mo # ms2"
    by (auto dest: split_list)
  from st have "st \<in> set (rev (first_seen (map strategy metrics)))"
    by (simp only: set_rev set_first_seen)
  then obtain ss1 ss2 where ss: "rev (first_seen (map strategy metrics)) = ss1 @ st # ss2"
    by (auto dest: split_list)
  have "strategy_order metrics = ss1 @ st # ss2"
    using ss by (simp add: strategy_order_def unique_first_seen)
  then have "model_lines fmt metrics mo =
      concat (map (strategy_lines fmt metrics mo) ss1) @ strategy_lines fmt metrics mo st @
      (concat (map (strategy_lines fmt metrics mo) ss2) @
       [INFO (concat (map (strategy_latex fmt metrics mo) (strategy_order metrics)))])"
    by (simp add: model_lines_def)
  moreover have "report fmt metrics =
      concat (map (model_lines fmt metrics) ms1) @ model_lines fmt metrics mo @
      concat (map (model_lines fmt metrics) ms2)"
    using ms by (simp add: report_def unique_first_seen)
  ultimately have "report fmt metrics =
      (concat (map (model_lines fmt metrics) ms1) @
       concat (map (strategy_lines fmt metrics mo) ss1)) @ strategy_lines fmt metrics mo st @
      ((concat (map (strategy_lines fmt metrics mo) ss2) @
        [INFO (concat (map (strategy_latex fmt metrics mo) (strategy_order metrics)))]) @
       concat (map (model_lines fmt metrics) ms2))"
    by simp
  then show ?thesis by blast
qed

lemma report_contains_strategy_latex:
  assumes mo: "mo \<in> set (map model metrics)" and st: "st \<in> set (map strategy metrics)"
  shows "\<exists>l r. INFO (l @ strategy_latex fmt metrics mo st @ r) \<in> set (report fmt metrics)"
proof -
  from st have "st \<in> set (rev (first_seen (map strategy metrics)))"
    by (simp only: set_rev set_first_seen)
  then obtain ss1 ss2 where ss: "rev (first_seen (map strategy metrics)) = ss1 @ st # ss2"
    by (auto dest: split_list)
  have "strategy_order metrics = ss1 @ st # ss2"
    using ss by (simp add: strategy_order_def unique_first_seen)
  then have "INFO (concat (map (strategy_latex fmt metrics mo) ss1) @
      strategy_latex fmt metrics mo st @ concat (map (strategy_latex fmt metrics mo) ss2))
      \<in> set (model_lines fmt metrics mo)"
    by (simp add: model_lines_def)
  moreover from mo have "mo \<in> set (unique (map model metrics))"
    by (simp only: unique_first_seen set_first_seen)
  ultimately have "INFO (concat (map (strategy_latex fmt metrics mo) ss1) @
      strategy_latex fmt metrics mo st @ concat (map (strategy_latex fmt metrics mo) ss2))
      \<in> set (report fmt metrics)"
    unfolding report_def by auto
  then show ?thesis by blast
qed

text \<open>
  C9. The strategy list is taken from the whole table. For a model and a strategy that
  both occur in the table but never in the same row, the summary is NaN for the mean and
  the standard deviation of all three metrics; the header and the three metric lines are
  logged all the same, and the model's LaTeX line contains the fragment with
  \<^verbatim>\<open>nan (nan)\<close> three times.
\<close>

theorem report_pair_without_rows:
  assumes "mo \<in> set (map model metrics)" and "st \<in> set (map strategy metrics)"
    and "select_rows metrics mo st = []"
  shows "summary metrics mo st =
           [(''auc'', NaN, NaN), (''precision'', NaN, NaN), (''recall'', NaN, NaN)] \<and>
         strategy_lines fmt metrics mo st =
           [INFO ([CHR 0x0A, CHR 0x0A] @ ''Model: '' @ mo @ '', Strategy: '' @ st),
            INFO ''auc: nan +- nan'', INFO ''precision: nan +- nan'', INFO ''recall: nan +- nan''] \<and>
         strategy_latex fmt metrics mo st = ''& nan (nan) & nan (nan) & nan (nan) '' \<and>
         (\<exists>before after.
            report fmt metrics = before @ strategy_lines fmt metrics mo st @ after) \<and>
         (\<exists>l r. INFO (l @ strategy_latex fmt metrics mo st @ r) \<in> set (report fmt metrics))"
proof -
  note s = summary_no_rows [OF assms(3)]
  have "strategy_lines fmt metrics mo st =
           [INFO ([CHR 0x0A, CHR 0x0A] @ ''Model: '' @ mo @ '', Strategy: '' @ st),
            INFO ''auc: nan +- nan'', INFO ''precision: nan +- nan'', INFO ''recall: nan +- nan'']"
    by (simp add: strategy_lines_def s)
  moreover have "strategy_latex fmt metrics mo st = ''& nan (nan) & nan (nan) & nan (nan) ''"
    by (simp add: strategy_latex_def s)
  ultimately show ?thesis
    using s report_contains_strategy_lines [OF assms(1,2), of fmt]
      report_contains_strategy_latex [OF assms(1,2), of fmt]
    by blast
qed

theorem report_pair_without_rows_witness:
  "''eegnet'' \<in> set (map model example_metrics) \<and>
   ''B'' \<in> set (map strategy example_metrics) \<and>
   select_rows example_metrics ''eegnet'' ''B'' = [] \<and>
   summary example_metrics ''eegnet'' ''B'' =
     [(''auc'', NaN, NaN), (''precision'', NaN, NaN), (''recall'', NaN, NaN)] \<and>
   (\<exists>l r. INFO (l @ ''& nan (nan) & nan (nan) & nan (nan) '' @ r)
      \<in> set (report (\<lambda>v. ''?'') example_metrics))"
proof -
  have h: "''eegnet'' \<in> set (map model example_metrics)"
    "''B'' \<in> set (map strategy example_metrics)"
    "select_rows example_metrics ''eegnet'' ''B'' = []"
    by (simp_all add: example_metrics_def select_rows_def)
  note t = report_pair_without_rows [OF h, of "\<lambda>v. ''?''"]
  from t have s: "summary example_metrics ''eegnet'' ''B'' =
      [(''auc'', NaN, NaN), (''precision'', NaN, NaN), (''recall'', NaN, NaN)]"
    by (rule conjunct1)
  from t have l: "strategy_latex (\<lambda>v. ''?'') example_metrics ''eegnet'' ''B'' =
      ''& nan (nan) & nan (nan) & nan (nan) ''"
    by blast
  from t have "\<exists>l r. INFO (l @ strategy_latex (\<lambda>v. ''?'') example_metrics ''eegnet'' ''B'' @ r)
      \<in> set (report (\<lambda>v. ''?'') example_metrics)"
    by blast
  then have "\<exists>l r. INFO (l @ ''& nan (nan) & nan (nan) & nan (nan) '' @ r)
      \<in> set (report (\<lambda>v. ''?'') example_metrics)"
    by (simp only: l)
  with h s show ?thesis by (intro conjI)
qed

section \<open>Metric aggregator\<close>

lemma apply_groups_map:
  assumes "\<And>k. k \<in> set ks \<Longrightarrow> f (g k) = Inr (v k)"
  shows "apply_groups f (map (\<lambda>k. (k, g k)) ks) = Inr (map (\<lambda>k. (k, v k)) ks)"
  using assms by (induction ks) simp_all

lemma filter_key_distinct:
  assumes "distinct ks" and "k \<in> set ks"
  shows "filter (\<lambda>(k', b). k' = k) (map (\<lambda>k. (k, b k)) ks) = [(k, b k)]"
  using assms
proof (induction ks)
  case Nil
  then show ?case by simp
next
  case (Cons j ks)
  show ?case
  proof (cases "j = k")
    case True
    with Cons.prems have "k \<notin> set ks" by simp
    then have "filter (\<lambda>(k', b). k' = k) (map (\<lambda>k. (k, b k)) ks) = []"
      by (induction ks) auto
    with True show ?thesis by simp
  next
    case False
    with Cons show ?thesis by simp
  qed
qed

lemma merge_on_sublist:
  assumes "distinct ks" and "set js \<subseteq> set ks"
  shows "merge_on (map (\<lambda>k. (k, a k)) js) (map (\<lambda>k. (k, b k)) ks) = map (\<lambda>k. (k, a k, b k)) js"
  using assms(2)
proof (induction js)
  case Nil
  show ?case by (simp add: merge_on_def)
next
  case (Cons j js)
  then have "j \<in> set ks" and "set js \<subseteq> set ks" by simp_all
  with Cons.IH filter_key_distinct [OF assms(1), of j b] show ?case
    by (simp add: merge_on_def)
qed

lemma merge_on_same_keys:
  assumes "distinct ks"
  shows "merge_on (map (\<lambda>k. (k, a k)) ks) (map (\<lambda>k. (k, b k)) ks) = map (\<lambda>k. (k, a k, b k)) ks"
  using assms by (rule merge_on_sublist) simp

lemma merge_metrics_same_keys:
  assumes "distinct ks"
  shows "merge_metrics (map (\<lambda>k. (k, m k)) ks) (map (\<lambda>k. (k, ka k)) ks) (map (\<lambda>k. (k, p k)) ks)
           (map (\<lambda>k. (k, r k)) ks) (map (\<lambda>k. (k, a k)) ks) =
         map (\<lambda>k. to_metric_row (k, (((m k, p k), ka k), r k), a k)) ks"
proof -
  have 1: "merge_on (map (\<lambda>k. (k, m k)) ks) (map (\<lambda>k. (k, p k)) ks) = map (\<lambda>k. (k, (m k, p k))) ks"
    using merge_on_same_keys [OF assms, of m p] by simp
  have 2: "merge_on (map (\<lambda>k. (k, (m k, p k))) ks) (map (\<lambda>k. (k, ka k)) ks) =
      map (\<lambda>k. (k, ((m k, p k), ka k))) ks"
    using merge_on_same_keys [OF assms, of "\<lambda>k. (m k, p k)" ka] by simp
  have 3: "merge_on (map (\<lambda>k. (k, ((m k, p k), ka k))) ks) (map (\<lambda>k. (k, r k)) ks) =
      map (\<lambda>k. (k, (((m k, p k), ka k), r k))) ks"
    using merge_on_same_keys [OF assms, of "\<lambda>k. ((m k, p k), ka k)" r] by simp
  have 4: "merge_on (map (\<lambda>k. (k, (((m k, p k), ka k), r k))) ks) (map (\<lambda>k. (k, a k)) ks) =
      map (\<lambda>k. (k, ((((m k, p k), ka k), r k), a k))) ks"
    using merge_on_same_keys [OF assms, of "\<lambda>k. (((m k, p k), ka k), r k)" a] by simp
  show ?thesis
    by (simp add: merge_metrics_def 1 2 3 4)
qed

lemma valid_targets_group:
  assumes "list_all (\<lambda>r. targets r = 0 \<or> targets r = 1) results"
  shows "valid_targets (map targets (group_rows k results))"
  using assms by (induction results) (simp_all add: valid_targets_def group_rows_def)

lemma metrics_return:
  assumes "valid_targets target"
  shows "\<exists>v. binary_matthews_corrcoef preds target = Inr v"
    and "\<exists>v. binary_cohen_kappa preds target = Inr v"
    and "\<exists>v. binary_precision preds target = Inr v"
    and "\<exists>v. binary_recall preds target = Inr v"
    and "\<exists>v. binary_auroc preds target = Inr v"
  using assms
  by (simp_all add: binary_matthews_corrcoef_def binary_cohen_kappa_def binary_precision_def
      binary_recall_def binary_auroc_def split: prod.splits)

lemma Inr_projr: "\<exists>v. x = Inr v \<Longrightarrow> x = Inr (projr x)"
  by auto

lemma groupby_Nil: "groupby results = [] \<longleftrightarrow> results = []"
proof
  assume "groupby results = []"
  then have "set (map fst (groupby results)) = {}" by simp
  then have "key_of ` set results = {}" by (simp add: groupby_def comp_def)
  then show "results = []" by simp
next
  assume "results = []"
  then show "groupby results = []" by (simp add: groupby_def)
qed

lemma compute_metrics_Nil: "compute_metrics [] = Inl MergeError"
  by (simp add: compute_metrics_def groupby_def bind_result_def)

lemma compute_metrics_valid:
  assumes "list_all (\<lambda>r. targets r = 0 \<or> targets r = 1) results" and "results \<noteq> []"
  shows "compute_metrics results =
           Inr (map (\<lambda>k. to_metric_row (k,
                  (((projr (on_group binary_matthews_corrcoef (group_rows k results)),
                     projr (on_group binary_precision (group_rows k results))),
                    projr (on_group binary_cohen_kappa (group_rows k results))),
                   projr (on_group binary_recall (group_rows k results))),
                  projr (on_group binary_auroc (group_rows k results))))
                (sort (remdups (map key_of results))))"
proof -
  let ?ks = "sort (remdups (map key_of results))"
  have d: "distinct ?ks" by simp
  note v = valid_targets_group [OF assms(1)]
  have g: "groupby results = map (\<lambda>k. (k, group_rows k results)) ?ks"
    by (simp add: groupby_def)
  have "groupby results \<noteq> []"
    using assms(2) by (simp only: groupby_Nil) simp
  then have ne: "?ks \<noteq> []"
    by (simp add: groupby_def)
  have a: "apply_groups (on_group f) (map (\<lambda>k. (k, group_rows k results)) ?ks) =
      Inr (map (\<lambda>k. (k, projr (on_group f (group_rows k results)))) ?ks)"
    if "\<And>k. \<exists>v. on_group f (group_rows k results) = Inr v" for f
    by (rule apply_groups_map) (rule Inr_projr, rule that)
  show ?thesis
    unfolding compute_metrics_def Let_def g
    by (simp add: a on_group_def metrics_return v bind_result_def ne
        merge_metrics_same_keys [OF d])
qed

lemma key_of_to_metric_row: "key_of (to_metric_row (k, x)) = k"
  by (cases k; cases x) (auto simp: to_metric_row_def key_of_def split: prod.splits)

lemma key_of_apply_sigmoid: "map key_of (apply_sigmoid results) = map key_of results"
  by (simp add: apply_sigmoid_map key_of_def)

lemma targets_apply_sigmoid:
  "list_all (\<lambda>r. P (targets r)) (apply_sigmoid results) = list_all (\<lambda>r. P (targets r)) results"
  unfolding apply_sigmoid_map by (induction results) simp_all

lemma run_valid:
  assumes "filepaths \<noteq> []" and "concat (map snd filepaths) \<noteq> []"
    and "list_all (\<lambda>r. targets r = 0 \<or> targets r = 1) (concat (map snd filepaths))"
  shows "\<exists>metrics. compute_metrics (apply_sigmoid (concat (map snd filepaths))) = Inr metrics \<and>
           run fmt filepaths =
             (fst (read_files filepaths) @ report fmt metrics,
              Done (apply_sigmoid (concat (map snd filepaths))) metrics)"
proof -
  have "list_all (\<lambda>r. targets r = 0 \<or> targets r = 1) (apply_sigmoid (concat (map snd filepaths)))"
    using assms(3) targets_apply_sigmoid [of "\<lambda>t. t = 0 \<or> t = 1" "concat (map snd filepaths)"]
    by simp
  moreover have "apply_sigmoid (concat (map snd filepaths)) \<noteq> []"
    using assms(2) by (simp add: apply_sigmoid_map)
  ultimately show ?thesis
    using compute_metrics_valid assms(1) by (simp add: run_def read_files_def Let_def)
qed

section \<open>Statistics of the report\<close>

text \<open>
  A label outside 0 and 1 makes the first metric raise on the group that holds it, and a
  table with no rows makes the merge raise, so a metrics table exists only for tables
  with a row whose labels are all 0 or 1; its auc, precision and recall columns then hold
  numbers, never NaN.
\<close>

lemma apply_groups_raises:
  assumes "(k, x) \<in> set groups" and "f x = Inl e" and only: "\<And>y e'. f y = Inl e' \<Longrightarrow> e' = e"
  shows "apply_groups f groups = Inl e"
  using assms(1)
proof (induction groups)
  case Nil
  then show ?case by simp
next
  case (Cons g groups)
  obtain j y where g: "g = (j, y)" by (cases g)
  show ?case
  proof (cases "f y")
    case (Inl a)
    with only [of y a] g show ?thesis by simp
  next
    case (Inr v)
    with Cons.prems g assms(2) have "(k, x) \<in> set groups" by auto
    from Cons.IH [OF this] Inr g show ?thesis by simp
  qed
qed

lemma compute_metrics_raises:
  assumes "\<not> list_all (\<lambda>r. targets r = 0 \<or> targets r = 1) results"
  shows "compute_metrics results = Inl RuntimeError"
proof -
  from assms obtain r where r: "r \<in> set results" and bad: "\<not> (targets r = 0 \<or> targets r = 1)"
    by (auto simp: list_all_iff)
  let ?k = "key_of r"
  have "r \<in> set (group_rows ?k results)"
    using r by (simp add: group_rows_def)
  with bad have "\<not> valid_targets (map targets (group_rows ?k results))"
    by (auto simp: valid_targets_def list_all_iff)
  then have raise: "on_group binary_matthews_corrcoef (group_rows ?k results) = Inl RuntimeError"
    by (simp add: on_group_def binary_matthews_corrcoef_def)
  have mem: "(?k, group_rows ?k results) \<in> set (groupby results)"
    using r by (simp add: groupby_def)
  have only: "e' = RuntimeError" if "on_group binary_matthews_corrcoef y = Inl e'" for y e'
    using that by (simp add: on_group_def binary_matthews_corrcoef_def split: if_splits)
  from mem raise only have
    "apply_groups (on_group binary_matthews_corrcoef) (groupby results) = Inl RuntimeError"
    by (rule apply_groups_raises)
  then show ?thesis
    by (simp add: compute_metrics_def bind_result_def)
qed

lemma reported_metrics_are_numbers:
  assumes "compute_metrics results = Inr metrics"
  shows "list_all (\<lambda>r. is_num (auc r) \<and> is_num (precision r) \<and> is_num (recall r)) metrics"
proof -
  have valid: "list_all (\<lambda>r. targets r = 0 \<or> targets r = 1) results"
    using assms compute_metrics_raises [of results]
    by (cases "list_all (\<lambda>r. targets r = 0 \<or> targets r = 1) results") simp_all
  have ne: "results \<noteq> []"
    using assms compute_metrics_Nil by auto
  note v = valid_targets_group [OF valid]
  have n: "is_num (projr (on_group binary_auroc (group_rows k results)))"
    "is_num (projr (on_group binary_precision (group_rows k results)))"
    "is_num (projr (on_group binary_recall (group_rows k results)))" for k
    using v [of k]
    by (simp_all add: on_group_def binary_auroc_def binary_precision_def binary_recall_def
        split: prod.splits)
  have f: "auc (to_metric_row (k, (((m, p), ka), r), a)) = a"
    "precision (to_metric_row (k, (((m, p), ka), r), a)) = p"
    "recall (to_metric_row (k, (((m, p), ka), r), a)) = r" for k m p ka r a
    by (cases k; simp add: to_metric_row_def)+
  from assms compute_metrics_valid [OF valid ne] show ?thesis
    by (auto simp: list_all_iff f n)
qed

lemma map_Num_the_num: "list_all is_num column \<Longrightarrow> map Num (map the_num column) = column"
proof (induction column)
  case Nil
  show ?case by simp
next
  case (Cons x xs)
  then show ?case by (cases x) simp_all
qed

lemma pd_mean_numbers:
  assumes "list_all is_num column"
  shows "pd_mean column = (if column = [] then NaN else Num (mean (map the_num column)))"
  using pd_mean_Num [of "map the_num column"] map_Num_the_num [OF assms] by simp

lemma pd_std_numbers:
  assumes "list_all is_num column"
  shows "pd_std column =
           (if length column \<le> 1 then NaN else Num (sample_std (map the_num column)))"
  using pd_std_Num [of "map the_num column"] map_Num_the_num [OF assms] by simp

lemma report_example_summary:
  "summary report_example ''eegnet'' ''A'' =
     [(''auc'', Num (9 / 10), Num (1 / 10)), (''precision'', Num (7 / 10), Num (2 / 10)),
      (''recall'', Num 1, Num 0)]"
proof -
  have sel: "select_rows report_example ''eegnet'' ''A'' = report_example"
    by (simp add: select_rows_def report_example_def)
  have a: "map auc report_example = map Num [8 / 10, 9 / 10, 1]"
    and p: "map precision report_example = map Num [5 / 10, 7 / 10, 9 / 10]"
    and r: "map recall report_example = map Num [1, 1, 1]"
    by (simp_all add: report_example_def)
  have sq: "sqrt ((1 / 10)\<^sup>2) = 1 / 10" "sqrt ((2 / 10)\<^sup>2) = 2 / 10"
    by (simp_all only: real_sqrt_abs)
  have "sample_std [5 / 10, 7 / 10, 9 / 10] = sqrt ((2 / 10)\<^sup>2)"
    by (simp add: sample_std_def mean_def power2_eq_square)
  then have ps: "sample_std [5 / 10, 7 / 10, 9 / 10] = 2 / 10"
    by (simp only: sq)
  have rs: "sample_std [1, 1, 1] = 0"
    by (simp add: sample_std_def mean_def)
  have pm: "mean [5 / 10, 7 / 10, 9 / 10] = 7 / 10" and rm: "mean [1, 1, 1] = 1"
    by (simp_all add: mean_def)
  show ?thesis
    unfolding summary_unfold sel a p r pd_mean_Num pd_std_Num
    using example_mean_std ps rs pm rm by simp
qed

lemma report_example_lines:
  "report fmt report_example =
     [INFO ([CHR 0x0A, CHR 0x0A] @ ''Model: eegnet, Strategy: A''),
      INFO (''auc: '' @ fmt (9 / 10) @ '' +- '' @ fmt (1 / 10)),
      INFO (''precision: '' @ fmt (7 / 10) @ '' +- '' @ fmt (2 / 10)),
      INFO (''recall: '' @ fmt 1 @ '' +- '' @ fmt 0),
      INFO (''& '' @ fmt (9 / 10) @ '' ('' @ fmt (1 / 10) @ '') '' @
            ''& '' @ fmt (7 / 10) @ '' ('' @ fmt (2 / 10) @ '') '' @
            ''& '' @ fmt 1 @ '' ('' @ fmt 0 @ '') '')]"
proof -
  have models: "unique (map model report_example) = [''eegnet'']"
    and strategies: "strategy_order report_example = [''A'']"
    by (simp_all add: report_example_def unique_def strategy_order_def)
  show ?thesis
    by (simp add: report_def model_lines_def models strategies strategy_lines_def
        strategy_latex_def report_example_summary)
qed

text \<open>
  C4. For every model and strategy of the metrics table the report holds, one after the
  other, the header of the pair and exactly three lines, for auc, precision and recall in
  this order, each with the mean and the standard deviation of that column over the rows
  of the table with that model and that strategy; the model's LaTeX line holds the same
  six numbers. In a metrics table the run computes these three columns hold numbers
  only, and on numbers the two statistics are the mean and the sample standard deviation
  (NaN for no value, and for the deviation of a single value). Changing the mcc and
  kappa columns changes nothing in the report. Three rows with auc 0.8, 0.9 and 1.0 are
  reported with mean 0.9 and deviation 0.1.
\<close>

theorem reporter_mean_std:
  "summary metrics mo st =
     [(''auc'', pd_mean (map auc (select_rows metrics mo st)),
                pd_std (map auc (select_rows metrics mo st))),
      (''precision'', pd_mean (map precision (select_rows metrics mo st)),
                      pd_std (map precision (select_rows metrics mo st))),
      (''recall'', pd_mean (map recall (select_rows metrics mo st)),
                   pd_std (map recall (select_rows metrics mo st)))] \<and>
   select_rows metrics mo st = filter (\<lambda>r. model r = mo \<and> strategy r = st) metrics \<and>
   (mo \<in> set (map model metrics) \<and> st \<in> set (map strategy metrics) \<longrightarrow>
      (\<exists>before after.
         report fmt metrics = before @
           [INFO ([CHR 0x0A, CHR 0x0A] @ ''Model: '' @ mo @ '', Strategy: '' @ st),
            INFO (''auc: '' @ format_2f fmt (pd_mean (map auc (select_rows metrics mo st))) @
                  '' +- '' @ format_2f fmt (pd_std (map auc (select_rows metrics mo st)))),
            INFO (''precision: '' @
                  format_2f fmt (pd_mean (map precision (select_rows metrics mo st))) @
                  '' +- '' @ format_2f fmt (pd_std (map precision (select_rows metrics mo st)))),
            INFO (''recall: '' @ format_2f fmt (pd_mean (map recall (select_rows metrics mo st))) @
                  '' +- '' @ format_2f fmt (pd_std (map recall (select_rows metrics mo st))))] @
           after) \<and>
      (\<exists>l r.
         INFO (l @
           ''& '' @ format_2f fmt (pd_mean (map auc (select_rows metrics mo st))) @
           '' ('' @ format_2f fmt (pd_std (map auc (select_rows metrics mo st))) @ '') '' @
           ''& '' @ format_2f fmt (pd_mean (map precision (select_rows metrics mo st))) @
           '' ('' @ format_2f fmt (pd_std (map precision (select_rows metrics mo st))) @ '') '' @
           ''& '' @ format_2f fmt (pd_mean (map recall (select_rows metrics mo st))) @
           '' ('' @ format_2f fmt (pd_std (map recall (select_rows metrics mo st))) @ '') '' @ r)
         \<in> set (report fmt metrics))) \<and>
   (compute_metrics results = Inr computed \<longrightarrow>
      list_all (\<lambda>r. is_num (auc r) \<and> is_num (precision r) \<and> is_num (recall r)) computed) \<and>
   (list_all is_num column \<longrightarrow>
      pd_mean column = (if column = [] then NaN else Num (mean (map the_num column))) \<and>
      pd_std column =
        (if length column \<le> 1 then NaN else Num (sample_std (map the_num column)))) \<and>
   report fmt (map (\<lambda>r. r\<lparr>mcc := m r, kappa := k r\<rparr>) metrics) = report fmt metrics \<and>
   report fmt report_example =
     [INFO ([CHR 0x0A, CHR 0x0A] @ ''Model: eegnet, Strategy: A''),
      INFO (''auc: '' @ fmt (9 / 10) @ '' +- '' @ fmt (1 / 10)),
      INFO (''precision: '' @ fmt (7 / 10) @ '' +- '' @ fmt (2 / 10)),
      INFO (''recall: '' @ fmt 1 @ '' +- '' @ fmt 0),
      INFO (''& '' @ fmt (9 / 10) @ '' ('' @ fmt (1 / 10) @ '') '' @
            ''& '' @ fmt (7 / 10) @ '' ('' @ fmt (2 / 10) @ '') '' @
            ''& '' @ fmt 1 @ '' ('' @ fmt 0 @ '') '')]"
proof -
  let ?am = "pd_mean (map auc (select_rows metrics mo st))"
  let ?as = "pd_std (map auc (select_rows metrics mo st))"
  let ?pm = "pd_mean (map precision (select_rows metrics mo st))"
  let ?ps = "pd_std (map precision (select_rows metrics mo st))"
  let ?rm = "pd_mean (map recall (select_rows metrics mo st))"
  let ?rs = "pd_std (map recall (select_rows metrics mo st))"
  have lines: "strategy_lines fmt metrics mo st =
      [INFO ([CHR 0x0A, CHR 0x0A] @ ''Model: '' @ mo @ '', Strategy: '' @ st),
       INFO (''auc: '' @ format_2f fmt ?am @ '' +- '' @ format_2f fmt ?as),
       INFO (''precision: '' @ format_2f fmt ?pm @ '' +- '' @ format_2f fmt ?ps),
       INFO (''recall: '' @ format_2f fmt ?rm @ '' +- '' @ format_2f fmt ?rs)]"
    by (simp add: strategy_lines_def summary_unfold)
  have latex: "strategy_latex fmt metrics mo st =
      ''& '' @ format_2f fmt ?am @ '' ('' @ format_2f fmt ?as @ '') '' @
      ''& '' @ format_2f fmt ?pm @ '' ('' @ format_2f fmt ?ps @ '') '' @
      ''& '' @ format_2f fmt ?rm @ '' ('' @ format_2f fmt ?rs @ '') ''"
    by (simp add: strategy_latex_def summary_unfold)
  have 1: "summary metrics mo st = [(''auc'', ?am, ?as), (''precision'', ?pm, ?ps), (''recall'', ?rm, ?rs)]"
    by (rule summary_unfold)
  have 2: "select_rows metrics mo st = filter (\<lambda>r. model r = mo \<and> strategy r = st) metrics"
    by (simp add: select_rows_def)
  have 3: "mo \<in> set (map model metrics) \<and> st \<in> set (map strategy metrics) \<longrightarrow>
      (\<exists>before after. report fmt metrics = before @
          [INFO ([CHR 0x0A, CHR 0x0A] @ ''Model: '' @ mo @ '', Strategy: '' @ st),
           INFO (''auc: '' @ format_2f fmt ?am @ '' +- '' @ format_2f fmt ?as),
           INFO (''precision: '' @ format_2f fmt ?pm @ '' +- '' @ format_2f fmt ?ps),
           INFO (''recall: '' @ format_2f fmt ?rm @ '' +- '' @ format_2f fmt ?rs)] @ after) \<and>
      (\<exists>l r. INFO (l @
           ''& '' @ format_2f fmt ?am @ '' ('' @ format_2f fmt ?as @ '') '' @
           ''& '' @ format_2f fmt ?pm @ '' ('' @ format_2f fmt ?ps @ '') '' @
           ''& '' @ format_2f fmt ?rm @ '' ('' @ format_2f fmt ?rs @ '') '' @ r)
         \<in> set (report fmt metrics))"
  proof
    assume "mo \<in> set (map model metrics) \<and> st \<in> set (map strategy metrics)"
    then have mo: "mo \<in> set (map model metrics)" and st: "st \<in> set (map strategy metrics)"
      by simp_all
    have "\<exists>before after. report fmt metrics = before @ strategy_lines fmt metrics mo st @ after"
      using mo st by (rule report_contains_strategy_lines)
    then have A: "\<exists>before after. report fmt metrics = before @
          [INFO ([CHR 0x0A, CHR 0x0A] @ ''Model: '' @ mo @ '', Strategy: '' @ st),
           INFO (''auc: '' @ format_2f fmt ?am @ '' +- '' @ format_2f fmt ?as),
           INFO (''precision: '' @ format_2f fmt ?pm @ '' +- '' @ format_2f fmt ?ps),
           INFO (''recall: '' @ format_2f fmt ?rm @ '' +- '' @ format_2f fmt ?rs)] @ after"
      by (simp only: lines)
    have "\<exists>l r. INFO (l @ strategy_latex fmt metrics mo st @ r) \<in> set (report fmt metrics)"
      using mo st by (rule report_contains_strategy_latex)
    then have B: "\<exists>l r. INFO (l @
           ''& '' @ format_2f fmt ?am @ '' ('' @ format_2f fmt ?as @ '') '' @
           ''& '' @ format_2f fmt ?pm @ '' ('' @ format_2f fmt ?ps @ '') '' @
           ''& '' @ format_2f fmt ?rm @ '' ('' @ format_2f fmt ?rs @ '') '' @ r)
         \<in> set (report fmt metrics)"
      by (simp only: latex append_assoc)
    from A B show "(\<exists>before after. report fmt metrics = before @
          [INFO ([CHR 0x0A, CHR 0x0A] @ ''Model: '' @ mo @ '', Strategy: '' @ st),
           INFO (''auc: '' @ format_2f fmt ?am @ '' +- '' @ format_2f fmt ?as),
           INFO (''precision: '' @ format_2f fmt ?pm @ '' +- '' @ format_2f fmt ?ps),
           INFO (''recall: '' @ format_2f fmt ?rm @ '' +- '' @ format_2f fmt ?rs)] @ after) \<and>
      (\<exists>l r. INFO (l @
           ''& '' @ format_2f fmt ?am @ '' ('' @ format_2f fmt ?as @ '') '' @
           ''& '' @ format_2f fmt ?pm @ '' ('' @ format_2f fmt ?ps @ '') '' @
           ''& '' @ format_2f fmt ?rm @ '' ('' @ format_2f fmt ?rs @ '') '' @ r)
         \<in> set (report fmt metrics))" ..
  qed
  have 4: "list_all (\<lambda>r. is_num (auc r) \<and> is_num (precision r) \<and> is_num (recall r)) computed"
    if "compute_metrics results = Inr computed"
    using that by (rule reported_metrics_are_numbers)
  have 5: "pd_mean column = (if column = [] then NaN else Num (mean (map the_num column))) \<and>
      pd_std column = (if length column \<le> 1 then NaN else Num (sample_std (map the_num column)))"
    if "list_all is_num column"
    using pd_mean_numbers [OF that] pd_std_numbers [OF that] by simp
  have 6: "report fmt (map (\<lambda>r. r\<lparr>mcc := m r, kappa := k r\<rparr>) metrics) = report fmt metrics"
    by (rule report_update)
  note 7 = report_example_lines [of fmt]
  from 1 2 3 4 5 6 7 show ?thesis
    by (intro conjI impI) blast+
qed

theorem reporter_mean_std_witness:
  "''lda'' \<in> set (map model example_metrics) \<and> ''B'' \<in> set (map strategy example_metrics) \<and>
   (\<exists>before after.
      report example_fmt example_metrics = before @
        [INFO ([CHR 0x0A, CHR 0x0A] @ ''Model: lda, Strategy: B''),
         INFO ''auc: ? +- nan'', INFO ''precision: ? +- nan'', INFO ''recall: ? +- nan''] @
        after) \<and>
   compute_metrics example_normalized = Inr example_metrics \<and>
   list_all (\<lambda>r. is_num (auc r) \<and> is_num (precision r) \<and> is_num (recall r)) example_metrics \<and>
   list_all is_num [Num (8 / 10), Num (9 / 10), Num 1] \<and>
   pd_mean [Num (8 / 10), Num (9 / 10), Num 1] = Num (9 / 10) \<and>
   pd_std [Num (8 / 10), Num (9 / 10), Num 1] = Num (1 / 10)"
proof -
  have h: "''lda'' \<in> set (map model example_metrics) \<and> ''B'' \<in> set (map strategy example_metrics)"
    by (simp add: example_metrics_def)
  have c: "compute_metrics example_normalized = Inr example_metrics"
    by (rule example_compute_metrics)
  have l: "list_all is_num [Num (8 / 10), Num (9 / 10), Num 1]"
    by simp
  have sel: "select_rows example_metrics ''lda'' ''B'' =
      [\<lparr>seed = 1, user = ''u1'', model = ''lda'', strategy = ''B'', reading_task = ''nr'',
        mcc = Num 1, precision = Num 1, kappa = Num 1, recall = Num 1, auc = Num 1\<rparr>]"
    by (simp add: select_rows_def example_metrics_def)
  note t = reporter_mean_std [of example_metrics "''lda''" "''B''" example_fmt example_normalized
      example_metrics "[Num (8 / 10), Num (9 / 10), Num 1]"]
  note e = t [THEN conjunct2, THEN conjunct2, THEN conjunct1, THEN mp, OF h, THEN conjunct1]
  have "\<exists>before after.
      report example_fmt example_metrics = before @
        [INFO ([CHR 0x0A, CHR 0x0A] @ ''Model: lda, Strategy: B''),
         INFO ''auc: ? +- nan'', INFO ''precision: ? +- nan'', INFO ''recall: ? +- nan''] @
        after"
    using e by (simp add: sel pd_mean_def pd_std_def example_fmt_def)
  moreover from t c have "list_all (\<lambda>r. is_num (auc r) \<and> is_num (precision r) \<and> is_num (recall r))
      example_metrics"
    by blast
  moreover from t l have "pd_mean [Num (8 / 10), Num (9 / 10), Num 1] =
      Num (mean (map the_num [Num (8 / 10), Num (9 / 10), Num 1])) \<and>
    pd_std [Num (8 / 10), Num (9 / 10), Num 1] =
      Num (sample_std (map the_num [Num (8 / 10), Num (9 / 10), Num 1]))"
    by simp
  then have "pd_mean [Num (8 / 10), Num (9 / 10), Num 1] = Num (9 / 10) \<and>
      pd_std [Num (8 / 10), Num (9 / 10), Num 1] = Num (1 / 10)"
    using example_mean_std by simp
  ultimately show ?thesis using h c l by (intro conjI) simp_all
qed

section \<open>Ranges of the metrics\<close>









lemma kappa_bound:
  fixes a b c d :: real
  assumes "0 \<le> a" "0 \<le> b" "0 \<le> c" "0 \<le> d"
  shows "(b + c) * (a + b + c + d) \<le> 2 * ((a + b) * (b + d) + (c + d) * (a + c))"
proof -
  have "0 \<le> a * b + a * c + b * d + c * d + 4 * (a * d) + (b - c)\<^sup>2"
    using assms by simp
  then show ?thesis
    by (simp add: power2_eq_square algebra_simps)
qed

lemma cohen_kappa_range:
  assumes "kappa_expected (tn, fp, fn, tp) \<noteq> 0"
  shows "\<exists>v. cohen_kappa_reduce (tn, fp, fn, tp) = Num v \<and> - 1 \<le> v \<and> v \<le> 1"
proof -
  let ?a = "real tn" and ?b = "real fp" and ?c = "real fn" and ?d = "real tp"
  let ?n = "?a + ?b + ?c + ?d"
  let ?m = "(?a + ?b) * (?b + ?d) + (?c + ?d) * (?a + ?c)"
  have E: "kappa_expected (tn, fp, fn, tp) = ?m / ?n"
    by (simp add: kappa_expected_def add.assoc)
  have O: "kappa_observed (tn, fp, fn, tp) = ?b + ?c"
    by (simp add: kappa_observed_def)
  from assms E have n0: "?n \<noteq> 0" and m0: "?m \<noteq> 0" by auto
  have "0 \<le> ?n" "0 \<le> ?m" by simp_all
  with n0 m0 have n: "0 < ?n" and m: "0 < ?m" by linarith+
  then have Epos: "0 < ?m / ?n" by simp
  have "(?b + ?c) * ?n \<le> 2 * ?m"
    by (rule kappa_bound) simp_all
  then have "(?b + ?c) \<le> 2 * (?m / ?n)"
    using n by (simp add: field_simps)
  moreover have "x / y \<le> 2" if "0 < y" "x \<le> 2 * y" for x y :: real
    using that by (simp add: pos_divide_le_eq)
  ultimately have up: "(?b + ?c) / (?m / ?n) \<le> 2"
    using Epos by blast
  have lo: "0 \<le> (?b + ?c) / (?m / ?n)"
    using Epos by simp
  have "cohen_kappa_reduce (tn, fp, fn, tp) = Num (1 - (?b + ?c) / (?m / ?n))"
    using assms unfolding cohen_kappa_reduce_def fl_divide_def O
    by (simp add: E)
  with up lo show ?thesis by simp
qed

lemma cohen_kappa_nan:
  assumes "kappa_expected (tn, fp, fn, tp) = 0"
  shows "cohen_kappa_reduce (tn, fp, fn, tp) = NaN"
    and "tn + fp = 0 \<or> fn + tp = 0"
    and "kappa_observed (tn, fp, fn, tp) = 0"
proof -
  show "cohen_kappa_reduce (tn, fp, fn, tp) = NaN"
    using assms by (simp add: cohen_kappa_reduce_def fl_divide_def)
  let ?n = "real (tn + fp + fn + tp)"
  from assms have "real (tn + fp) * real (fp + tp) + real (fn + tp) * real (tn + fn) = 0 \<or> ?n = 0"
    by (simp add: kappa_expected_def)
  then have z: "(tn + fp) * (fp + tp) + (fn + tp) * (tn + fn) = 0 \<or> tn + fp + fn + tp = 0"
    by (metis of_nat_0_eq_iff of_nat_add of_nat_mult)
  then show "tn + fp = 0 \<or> fn + tp = 0" by auto
  from z show "kappa_observed (tn, fp, fn, tp) = 0"
    by (auto simp: kappa_observed_def)
qed

lemma length_to_labels: "length (to_labels preds) = length preds"
  by (simp add: to_labels_def to_probabilities_def)

lemma binary_to_labels: "list_all (\<lambda>l. l = 0 \<or> l = 1) (to_labels preds)"
  by (auto simp: to_labels_def list_all_iff)

lemma count_pairs_target:
  assumes "length labels = length target" and "list_all (\<lambda>l. l = 0 \<or> l = 1) labels"
  shows "count_pairs t 0 target labels + count_pairs t 1 target labels =
           length (filter (\<lambda>u. u = t) target)"
  using assms
  by (induction labels target rule: list_induct2) (auto simp: count_pairs_def)

lemma confusion_matrix_margins:
  assumes "length preds = length target"
    and "confusion_matrix preds target = (tn, fp, fn, tp)"
  shows "tn + fp = length (filter (\<lambda>u. u = 0) target)"
    and "fn + tp = length (filter (\<lambda>u. u = 1) target)"
proof -
  have l: "length (to_labels preds) = length target"
    using assms(1) by (simp add: length_to_labels)
  from assms(2) have c: "tn = count_pairs 0 0 target (to_labels preds)"
    "fp = count_pairs 0 1 target (to_labels preds)"
    "fn = count_pairs 1 0 target (to_labels preds)"
    "tp = count_pairs 1 1 target (to_labels preds)"
    by (simp_all add: confusion_matrix_def Let_def)
  show "tn + fp = length (filter (\<lambda>u. u = 0) target)"
    unfolding c by (rule count_pairs_target [OF l binary_to_labels])
  show "fn + tp = length (filter (\<lambda>u. u = 1) target)"
    unfolding c by (rule count_pairs_target [OF l binary_to_labels])
qed

lemma empty_margin_single_class:
  assumes "valid_targets target"
    and "length (filter (\<lambda>u. u = 0) target) = 0 \<or> length (filter (\<lambda>u. u = 1) target) = 0"
  shows "single_class target"
proof -
  from assms(2) have "(\<forall>u \<in> set target. u \<noteq> 0) \<or> (\<forall>u \<in> set target. u \<noteq> 1)"
    by (auto simp: filter_empty_conv)
  with assms(1) show ?thesis
    by (auto simp: single_class_def valid_targets_def list_all_iff)
qed








lemma cohen_kappa_value:
  assumes v: "valid_targets target" and len: "length preds = length target"
  shows "in_range (- 1) 1 (cohen_kappa_reduce (confusion_matrix preds target)) \<or>
         cohen_kappa_reduce (confusion_matrix preds target) = NaN \<and> single_class target"
proof -
  obtain tn fp fn tp where c: "confusion_matrix preds target = (tn, fp, fn, tp)"
    by (cases "confusion_matrix preds target") auto
  show ?thesis
  proof (cases "kappa_expected (tn, fp, fn, tp) = 0")
    case True
    note n = cohen_kappa_nan [OF True]
    from n(2) confusion_matrix_margins [OF len c]
    have "length (filter (\<lambda>u. u = 0) target) = 0 \<or> length (filter (\<lambda>u. u = 1) target) = 0"
      by auto
    from empty_margin_single_class [OF v this] n(1) show ?thesis by (simp add: c)
  next
    case False
    from cohen_kappa_range [OF False] show ?thesis by (auto simp: c)
  qed
qed

lemma in_range_is_num: "in_range lo hi v \<Longrightarrow> is_num v"
  by (cases v) simp_all

lemma metrics_are_numbers:
  assumes "valid_targets target"
  shows "is_num (projr (binary_matthews_corrcoef preds target))"
    and "is_num (projr (binary_precision preds target))"
    and "is_num (projr (binary_recall preds target))"
    and "is_num (projr (binary_auroc preds target))"
  using assms
  by (simp_all add: binary_matthews_corrcoef_def binary_precision_def binary_recall_def
      binary_auroc_def split: prod.splits)

lemma kappa_is_number_or_single_class:
  assumes "valid_targets target" and "length preds = length target"
  shows "is_num (projr (binary_cohen_kappa preds target)) \<or>
         projr (binary_cohen_kappa preds target) = NaN \<and> single_class target"
  using cohen_kappa_value [OF assms] assms(1)
  by (auto simp: binary_cohen_kappa_def dest: in_range_is_num)



section \<open>One row per group\<close>

lemma single_class_compute_metrics: "compute_metrics single_class_group = Inr single_class_metrics"
  by (simp add: compute_metrics_def groupby_def group_rows_def key_of_def single_class_group_def
      on_group_def to_float32_examples metric_defs bind_result_def merge_metrics_def merge_on_def
      to_metric_row_def single_class_metrics_def)

text \<open>
  The claim C1 as the specification words it has all five metric columns populated in
  every row. The table of a single row, a non-empty table with a label that is 0 or 1,
  gives a metrics table whose one row has no kappa: the value is NaN.
\<close>

theorem single_class_kappa_nan:
  "concat (map snd [(''w_relevance_seed1.pkl'', single_class_group)]) = single_class_group \<and>
   length single_class_group = 1 \<and>
   map targets single_class_group = [1] \<and>
   snd (run example_fmt [(''w_relevance_seed1.pkl'', single_class_group)]) =
     Done single_class_group single_class_metrics \<and>
   map kappa single_class_metrics = [NaN]"
proof -
  have "apply_sigmoid single_class_group = single_class_group"
    by (simp add: apply_sigmoid_map single_class_group_def logit_models_def)
  then have "snd (run example_fmt [(''w_relevance_seed1.pkl'', single_class_group)]) =
      Done single_class_group single_class_metrics"
    by (simp add: run_def read_files_def single_class_compute_metrics)
  then show ?thesis
    by (simp add: single_class_group_def single_class_metrics_def)
qed

text \<open>
  C1, amended. A run over a non-empty table with labels 0 and 1 ends with the normalized
  table and a merged metrics table that has no two rows with the same key and whose keys
  are exactly the keys of the loaded table. Every row carries, for each of the five
  metrics, the value of that metric on the predictions and targets of the rows of the
  normalized table that have the row's key, and of no others. The values of mcc,
  precision, recall and auc are numbers; the value of kappa is a number or, on a group
  with a single class only, NaN.
\<close>

theorem metrics_one_row_per_group:
  assumes "filepaths \<noteq> []" and "concat (map snd filepaths) \<noteq> []"
    and "list_all (\<lambda>r. targets r = 0 \<or> targets r = 1) (concat (map snd filepaths))"
  shows "\<exists>lg results metrics.
           run fmt filepaths = (lg, Done results metrics) \<and>
           results = apply_sigmoid (concat (map snd filepaths)) \<and>
           distinct (map key_of metrics) \<and>
           set (map key_of metrics) = set (map key_of (concat (map snd filepaths))) \<and>
           list_all (\<lambda>r.
               binary_matthews_corrcoef
                 (tensor (map predictions (filter (\<lambda>x. key_of x = key_of r) results)))
                 (map targets (filter (\<lambda>x. key_of x = key_of r) results)) = Inr (mcc r) \<and>
               binary_cohen_kappa
                 (tensor (map predictions (filter (\<lambda>x. key_of x = key_of r) results)))
                 (map targets (filter (\<lambda>x. key_of x = key_of r) results)) = Inr (kappa r) \<and>
               binary_precision
                 (tensor (map predictions (filter (\<lambda>x. key_of x = key_of r) results)))
                 (map targets (filter (\<lambda>x. key_of x = key_of r) results)) = Inr (precision r) \<and>
               binary_recall
                 (tensor (map predictions (filter (\<lambda>x. key_of x = key_of r) results)))
                 (map targets (filter (\<lambda>x. key_of x = key_of r) results)) = Inr (recall r) \<and>
               binary_auroc
                 (tensor (map predictions (filter (\<lambda>x. key_of x = key_of r) results)))
                 (map targets (filter (\<lambda>x. key_of x = key_of r) results)) = Inr (auc r) \<and>
               is_num (mcc r) \<and> is_num (precision r) \<and> is_num (recall r) \<and> is_num (auc r) \<and>
               (is_num (kappa r) \<or>
                kappa r = NaN \<and>
                single_class (map targets (filter (\<lambda>x. key_of x = key_of r) results))))
             metrics"
proof -
  let ?results = "apply_sigmoid (concat (map snd filepaths))"
  let ?ks = "sort (remdups (map key_of ?results))"
  let ?p = "\<lambda>k. tensor (map predictions (filter (\<lambda>x. key_of x = k) ?results))"
  let ?t = "\<lambda>k. map targets (filter (\<lambda>x. key_of x = k) ?results)"
  let ?row = "\<lambda>k. to_metric_row (k,
                  (((projr (on_group binary_matthews_corrcoef (group_rows k ?results)),
                     projr (on_group binary_precision (group_rows k ?results))),
                    projr (on_group binary_cohen_kappa (group_rows k ?results))),
                   projr (on_group binary_recall (group_rows k ?results))),
                  projr (on_group binary_auroc (group_rows k ?results)))"
  have valid: "list_all (\<lambda>r. targets r = 0 \<or> targets r = 1) ?results"
    using assms(3) targets_apply_sigmoid [of "\<lambda>t. t = 0 \<or> t = 1" "concat (map snd filepaths)"]
    by simp
  have ne: "?results \<noteq> []"
    using assms(2) by (simp add: apply_sigmoid_map)
  from run_valid [OF assms, of fmt] obtain metrics where
    c: "compute_metrics ?results = Inr metrics" and
    r: "run fmt filepaths = (fst (read_files filepaths) @ report fmt metrics, Done ?results metrics)"
    by blast
  from c compute_metrics_valid [OF valid ne] have m: "metrics = map ?row ?ks"
    by simp
  have keys: "map key_of metrics = ?ks"
    unfolding m by (simp add: comp_def key_of_to_metric_row)
  have d: "distinct (map key_of metrics)"
    unfolding keys by simp
  have s: "set (map key_of metrics) = set (map key_of (concat (map snd filepaths)))"
    unfolding keys by (simp add: key_of_apply_sigmoid del: set_map)
  have og: "on_group f (group_rows k ?results) = f (?p k) (?t k)" for f k
    by (simp add: on_group_def group_rows_def)
  have vt: "valid_targets (?t k)" for k
    using valid_targets_group [OF valid, of k] by (simp add: group_rows_def)
  have len: "length (?p k) = length (?t k)" for k
    by (simp add: tensor_def)
  have fields: "mcc (?row k) = projr (binary_matthews_corrcoef (?p k) (?t k))"
    "kappa (?row k) = projr (binary_cohen_kappa (?p k) (?t k))"
    "precision (?row k) = projr (binary_precision (?p k) (?t k))"
    "recall (?row k) = projr (binary_recall (?p k) (?t k))"
    "auc (?row k) = projr (binary_auroc (?p k) (?t k))" for k
    unfolding og by (cases k; simp add: to_metric_row_def)+
  have "list_all (\<lambda>r.
               binary_matthews_corrcoef (?p (key_of r)) (?t (key_of r)) = Inr (mcc r) \<and>
               binary_cohen_kappa (?p (key_of r)) (?t (key_of r)) = Inr (kappa r) \<and>
               binary_precision (?p (key_of r)) (?t (key_of r)) = Inr (precision r) \<and>
               binary_recall (?p (key_of r)) (?t (key_of r)) = Inr (recall r) \<and>
               binary_auroc (?p (key_of r)) (?t (key_of r)) = Inr (auc r) \<and>
               is_num (mcc r) \<and> is_num (precision r) \<and> is_num (recall r) \<and> is_num (auc r) \<and>
               (is_num (kappa r) \<or> kappa r = NaN \<and> single_class (?t (key_of r))))
             metrics"
    unfolding m list_all_iff
  proof
    fix r assume "r \<in> set (map ?row ?ks)"
    then have "r \<in> ?row ` set ?ks" by (simp only: set_map)
    then obtain k where k: "r = ?row k" ..
    have kk: "key_of r = k" unfolding k by (rule key_of_to_metric_row)
    note v = vt [of k]
    note ret = metrics_return [OF v, of "?p k", THEN Inr_projr]
    note num = metrics_are_numbers [OF v, of "?p k"]
    note kap = kappa_is_number_or_single_class [OF v len [of k]]
    show "binary_matthews_corrcoef (?p (key_of r)) (?t (key_of r)) = Inr (mcc r) \<and>
               binary_cohen_kappa (?p (key_of r)) (?t (key_of r)) = Inr (kappa r) \<and>
               binary_precision (?p (key_of r)) (?t (key_of r)) = Inr (precision r) \<and>
               binary_recall (?p (key_of r)) (?t (key_of r)) = Inr (recall r) \<and>
               binary_auroc (?p (key_of r)) (?t (key_of r)) = Inr (auc r) \<and>
               is_num (mcc r) \<and> is_num (precision r) \<and> is_num (recall r) \<and> is_num (auc r) \<and>
               (is_num (kappa r) \<or> kappa r = NaN \<and> single_class (?t (key_of r)))"
      unfolding kk unfolding k fields
      using ret num kap by (intro conjI)
  qed
  with r d s show ?thesis by blast
qed

theorem metrics_one_row_per_group_witness:
  "\<exists>lg results metrics.
     run example_fmt example_files = (lg, Done results metrics) \<and>
     results = apply_sigmoid (concat (map snd example_files)) \<and>
     distinct (map key_of metrics) \<and>
     set (map key_of metrics) = {(1, ''u1'', ''lda'', ''B'', ''nr''), (1, ''u1'', ''eegnet'', ''A'', ''nr'')} \<and>
     list_all (\<lambda>r.
         binary_matthews_corrcoef
           (tensor (map predictions (filter (\<lambda>x. key_of x = key_of r) results)))
           (map targets (filter (\<lambda>x. key_of x = key_of r) results)) = Inr (mcc r) \<and>
         binary_cohen_kappa
           (tensor (map predictions (filter (\<lambda>x. key_of x = key_of r) results)))
           (map targets (filter (\<lambda>x. key_of x = key_of r) results)) = Inr (kappa r) \<and>
         binary_precision
           (tensor (map predictions (filter (\<lambda>x. key_of x = key_of r) results)))
           (map targets (filter (\<lambda>x. key_of x = key_of r) results)) = Inr (precision r) \<and>
         binary_recall
           (tensor (map predictions (filter (\<lambda>x. key_of x = key_of r) results)))
           (map targets (filter (\<lambda>x. key_of x = key_of r) results)) = Inr (recall r) \<and>
         binary_auroc
           (tensor (map predictions (filter (\<lambda>x. key_of x = key_of r) results)))
           (map targets (filter (\<lambda>x. key_of x = key_of r) results)) = Inr (auc r) \<and>
         is_num (mcc r) \<and> is_num (precision r) \<and> is_num (recall r) \<and> is_num (auc r) \<and>
         (is_num (kappa r) \<or>
          kappa r = NaN \<and>
          single_class (map targets (filter (\<lambda>x. key_of x = key_of r) results))))
       metrics"
proof -
  have h: "example_files \<noteq> []" "concat (map snd example_files) \<noteq> []"
    "list_all (\<lambda>r. targets r = 0 \<or> targets r = 1) (concat (map snd example_files))"
    by (simp_all add: example_files_def example_table_def)
  have k: "set (map key_of (concat (map snd example_files))) =
      {(1, ''u1'', ''lda'', ''B'', ''nr''), (1, ''u1'', ''eegnet'', ''A'', ''nr'')}"
    by (auto simp: example_files_def example_table_def key_of_def)
  from metrics_one_row_per_group [OF h, of example_fmt] show ?thesis
    unfolding k .
qed

section \<open>A group with perfect separation\<close>

lemma perfect_compute_metrics: "compute_metrics perfect_group = Inr perfect_metrics"
  by (simp add: compute_metrics_def groupby_def group_rows_def key_of_def perfect_group_def
      on_group_def to_float32_examples metric_defs bind_result_def merge_metrics_def merge_on_def
      to_metric_row_def perfect_metrics_def)

text \<open>
  C6. A table whose rows are one group with the scores 0.9, 0.2, 0.8, 0.1 and the labels
  1, 0, 1, 0, of a model whose scores the normalizer leaves alone: on that group
  precision and recall (threshold 0.5) are 1, and so is the area under the ROC curve;
  the run over the table ends with a metrics table of one row in which the three columns
  are 1.
\<close>

theorem perfect_separation_metrics:
  "map predictions perfect_group = [9 / 10, 2 / 10, 8 / 10, 1 / 10] \<and>
   map targets perfect_group = [1, 0, 1, 0] \<and>
   on_group binary_precision perfect_group = Inr (Num 1) \<and>
   on_group binary_recall perfect_group = Inr (Num 1) \<and>
   on_group binary_auroc perfect_group = Inr (Num 1) \<and>
   snd (run fmt [(''w_relevance_seed1.pkl'', perfect_group)]) =
     Done perfect_group perfect_metrics \<and>
   map precision perfect_metrics = [Num 1] \<and>
   map recall perfect_metrics = [Num 1] \<and>
   map auc perfect_metrics = [Num 1]"
proof -
  have "apply_sigmoid perfect_group = perfect_group"
    by (simp add: apply_sigmoid_map perfect_group_def logit_models_def)
  then have "snd (run fmt [(''w_relevance_seed1.pkl'', perfect_group)]) =
      Done perfect_group perfect_metrics"
    by (simp add: run_def read_files_def perfect_compute_metrics)
  moreover have "on_group binary_precision perfect_group = Inr (Num 1)"
    "on_group binary_recall perfect_group = Inr (Num 1)"
    "on_group binary_auroc perfect_group = Inr (Num 1)"
    by (simp_all add: perfect_group_def on_group_def to_float32_examples metric_defs)
  ultimately show ?thesis
    by (simp add: perfect_group_def perfect_metrics_def)
qed

section \<open>Order of the input files\<close>

lemma length_filter_mset:
  assumes "mset xs = mset ys"
  shows "length (filter P xs) = length (filter P ys)"
proof -
  have "size (mset (filter P xs)) = size (mset (filter P ys))"
    using assms by (simp only: mset_filter)
  then show ?thesis by (simp only: size_mset)
qed

lemma clf_curve_counts:
  assumes "sorted (map (\<lambda>pr. - fst pr) l)"
  shows "clf_curve l fps tps =
           map (\<lambda>v. (fps + length (filter (\<lambda>pr. v \<le> fst pr \<and> snd pr \<noteq> 1) l),
                      tps + length (filter (\<lambda>pr. v \<le> fst pr \<and> snd pr = 1) l)))
               (remdups_adj (map fst l))"
  using assms
proof (induction l fps tps rule: clf_curve.induct)
  case (1 fps tps)
  show ?case by simp
next
  case (2 p t fps tps)
  show ?case by simp
next
  case (3 p t q u rest fps tps)
  let ?rest = "(q, u) # rest"
  from 3(3) have s: "sorted (map (\<lambda>pr. - fst pr) ?rest)" and qp: "q \<le> p"
    and below: "\<forall>r \<in> set ?rest. fst r \<le> p"
    by auto
  have vals: "\<forall>v \<in> set (remdups_adj (map fst ?rest)). v \<le> p"
    using below by auto
  show ?case
  proof (cases "p = q")
    case True
    show ?thesis
    proof (cases "t = 1")
      case t: True
      from 3(1) [OF t s] True t vals show ?thesis by auto
    next
      case t: False
      from 3(2) [OF t s] True t vals show ?thesis by auto
    qed
  next
    case False
    with qp have lt: "q < p" by simp
    have none: "filter (\<lambda>pr. p \<le> fst pr \<and> P (snd pr)) ?rest = []" for P
      using s lt by (auto simp: filter_empty_conv)
    show ?thesis
    proof (cases "t = 1")
      case t: True
      from 3(1) [OF t s] False t vals none [of "\<lambda>y. y = 1"] none [of "\<lambda>y. y \<noteq> 1"]
      show ?thesis by auto
    next
      case t: False
      from 3(2) [OF t s] False t vals none [of "\<lambda>y. y = 1"] none [of "\<lambda>y. y \<noteq> 1"]
      show ?thesis by auto
    qed
  qed
qed

lemma sorted_keys_mset:
  fixes k :: "'a \<Rightarrow> real"
  assumes "sorted (map k l)" and "sorted (map k l')" and "mset l = mset l'"
  shows "map k l = map k l'"
proof -
  have "mset (map k l') = mset (map k l)" using assms(3) by simp
  from properties_for_sort [OF this assms(2)] have "sort (map k l) = map k l'" .
  moreover have "sort (map k l) = map k l" using assms(1) by (rule sorted_sort_id)
  ultimately show ?thesis by simp
qed

lemma clf_curve_mset:
  assumes "sorted (map (\<lambda>pr. - fst pr) l)" and "sorted (map (\<lambda>pr. - fst pr) l')"
    and "mset l = mset l'"
  shows "clf_curve l fps tps = clf_curve l' fps tps"
proof -
  have "map (\<lambda>pr. - fst pr) l = map (\<lambda>pr. - fst pr) l'"
    using assms by (rule sorted_keys_mset)
  then have "map uminus (map (\<lambda>pr. - fst pr) l) = map uminus (map (\<lambda>pr. - fst pr) l')"
    by simp
  then have f: "map fst l = map fst l'" by (simp add: comp_def)
  show ?thesis
    unfolding clf_curve_counts [OF assms(1)] clf_curve_counts [OF assms(2)] f
    by (simp add: length_filter_mset [OF assms(3)])
qed

lemma sort_descending_mset:
  assumes "mset l = mset l'"
  shows "clf_curve (sort_descending l) fps tps = clf_curve (sort_descending l') fps tps"
proof -
  have k: "(\<lambda>(p, t). - p) = (\<lambda>pr :: real \<times> int. - fst pr)"
    by (simp add: fun_eq_iff)
  show ?thesis
    unfolding sort_descending_def k
    by (rule clf_curve_mset) (simp_all add: assms)
qed

lemma to_probabilities_tensor:
  fixes x :: "prediction_record list"
  shows "to_probabilities (tensor (map predictions x)) =
     map (\<lambda>r. if list_all is_probability (tensor (map predictions x))
               then float_value (to_float32 (predictions r))
               else sigmoid (to_float32 (predictions r))) x"
  by (simp add: to_probabilities_def tensor_def)

lemma is_probability_mset:
  fixes x x' :: "prediction_record list"
  assumes "mset x = mset x'"
  shows "list_all is_probability (tensor (map predictions x)) =
         list_all is_probability (tensor (map predictions x'))"
  using mset_eq_setD [OF assms] by (simp add: list_all_iff tensor_def)

lemma valid_targets_mset:
  fixes x x' :: "prediction_record list"
  assumes "mset x = mset x'"
  shows "valid_targets (map targets x) = valid_targets (map targets x')"
  using mset_eq_setD [OF assms] by (simp add: valid_targets_def list_all_iff)

lemma confusion_matrix_mset:
  fixes x x' :: "prediction_record list"
  assumes "mset x = mset x'"
  shows "confusion_matrix (tensor (map predictions x)) (map targets x) =
         confusion_matrix (tensor (map predictions x')) (map targets x')"
proof -
  let ?lab = "\<lambda>y r. if (if list_all is_probability (tensor (map predictions y))
                           then float_value (to_float32 (predictions r))
                           else sigmoid (to_float32 (predictions r))) > 1 / 2
                      then 1 else (0 :: int)"
  have z: "zip (map targets y) (to_labels (tensor (map predictions y))) =
      map (\<lambda>r. (targets r, ?lab y r)) y"
    for y :: "prediction_record list"
    unfolding to_labels_def to_probabilities_tensor
    by (simp add: zip_map_map zip_same_conv_map)
  have c: "count_pairs t p (map targets x) (to_labels (tensor (map predictions x))) =
      count_pairs t p (map targets x') (to_labels (tensor (map predictions x')))" for t p
    unfolding count_pairs_def z
    by (rule length_filter_mset) (simp add: assms is_probability_mset [OF assms])
  show ?thesis
    by (simp add: confusion_matrix_def Let_def c)
qed

lemma binary_roc_mset:
  fixes x x' :: "prediction_record list"
  assumes "mset x = mset x'"
  shows "binary_roc (tensor (map predictions x)) (map targets x) =
         binary_roc (tensor (map predictions x')) (map targets x')"
proof -
  let ?pr = "\<lambda>y r. (if list_all is_probability (tensor (map predictions y))
                      then float_value (to_float32 (predictions r))
                      else sigmoid (to_float32 (predictions r)), targets r)"
  have z: "zip (to_probabilities (tensor (map predictions y))) (map targets y) = map (?pr y) y"
    for y :: "prediction_record list"
    unfolding to_probabilities_tensor by (simp add: zip_map_map zip_same_conv_map)
  have "mset (map (?pr x) x) = mset (map (?pr x') x')"
    by (simp add: assms is_probability_mset [OF assms])
  from sort_descending_mset [OF this] show ?thesis
    unfolding binary_roc_def z by simp
qed

lemma on_group_mset:
  fixes x x' :: "prediction_record list"
  assumes "mset x = mset x'"
  shows "on_group binary_matthews_corrcoef x = on_group binary_matthews_corrcoef x'"
    and "on_group binary_cohen_kappa x = on_group binary_cohen_kappa x'"
    and "on_group binary_precision x = on_group binary_precision x'"
    and "on_group binary_recall x = on_group binary_recall x'"
    and "on_group binary_auroc x = on_group binary_auroc x'"
  by (simp_all add: on_group_def binary_matthews_corrcoef_def binary_cohen_kappa_def
      binary_precision_def binary_recall_def binary_auroc_def
      valid_targets_mset [OF assms] confusion_matrix_mset [OF assms] binary_roc_mset [OF assms])

lemma apply_groups_cong:
  assumes "\<And>k. k \<in> set ks \<Longrightarrow> f (g k) = f (g' k)"
  shows "apply_groups f (map (\<lambda>k. (k, g k)) ks) = apply_groups f (map (\<lambda>k. (k, g' k)) ks)"
  using assms
proof (induction ks)
  case Nil
  show ?case by simp
next
  case (Cons a ks)
  have "apply_groups f (map (\<lambda>k. (k, g k)) ks) = apply_groups f (map (\<lambda>k. (k, g' k)) ks)"
    by (rule Cons.IH) (simp add: Cons.prems)
  moreover have "f (g a) = f (g' a)"
    by (simp add: Cons.prems)
  ultimately show ?case by (simp split: sum.split)
qed

lemma groupby_mset:
  assumes "mset results = mset results'"
  shows "sort (remdups (map key_of results)) = sort (remdups (map key_of results'))"
    and "mset (group_rows k results) = mset (group_rows k results')"
proof -
  have "set (map key_of results) = set (map key_of results')"
    using mset_eq_setD [OF assms] by simp
  then show "sort (remdups (map key_of results)) = sort (remdups (map key_of results'))"
    by (simp only: sorted_list_of_set_sort_remdups [symmetric])
  show "mset (group_rows k results) = mset (group_rows k results')"
    by (simp add: group_rows_def assms)
qed

lemma compute_metrics_mset:
  assumes "mset results = mset results'"
  shows "compute_metrics results = compute_metrics results'"
proof -
  note g = groupby_mset [OF assms]
  have a: "apply_groups (on_group f) (groupby results) = apply_groups (on_group f) (groupby results')"
    if "\<And>x x' :: prediction_record list. mset x = mset x' \<Longrightarrow> on_group f x = on_group f x'" for f
    unfolding groupby_def g(1)
    by (rule apply_groups_cong) (rule that, rule g(2))
  have "results = [] \<longleftrightarrow> results' = []"
    using assms by (metis mset_zero_iff)
  then have e: "groupby results = [] \<longleftrightarrow> groupby results' = []"
    by (simp only: groupby_Nil)
  show ?thesis
    unfolding compute_metrics_def Let_def
    by (simp only: a [OF on_group_mset(1)] a [OF on_group_mset(2)] a [OF on_group_mset(3)]
        a [OF on_group_mset(4)] a [OF on_group_mset(5)] e)
qed

lemma loaded_mset:
  assumes "mset filepaths' = mset filepaths"
  shows "mset (apply_sigmoid (concat (map snd filepaths'))) =
         mset (apply_sigmoid (concat (map snd filepaths)))"
proof -
  have "mset (map (mset \<circ> snd) filepaths') = mset (map (mset \<circ> snd) filepaths)"
    using assms by simp
  then have "mset (concat (map snd filepaths')) = mset (concat (map snd filepaths))"
    by (simp add: mset_concat comp_def sum_mset_sum_list [symmetric] del: sum_mset_sum_list)
  then show ?thesis
    by (simp add: apply_sigmoid_map)
qed

text \<open>
  C10. The run is a function of the files the glob returns, and of nothing else; the
  order in which the glob lists them is the one thing two invocations on the same files
  can differ in. Whatever that order, the outcome is the same (the same merged metrics
  table, the same exception, or the same early return) and the log is the "Reading"
  lines of the files followed by the same report lines, LaTeX lines included.
\<close>

theorem run_independent_of_file_order:
  assumes "mset filepaths' = mset filepaths"
  shows "metrics_table (snd (run fmt filepaths')) = metrics_table (snd (run fmt filepaths)) \<and>
         (\<exists>report_lines.
            fst (run fmt filepaths) = fst (read_files filepaths) @ report_lines \<and>
            fst (run fmt filepaths') = fst (read_files filepaths') @ report_lines)"
proof (cases "filepaths = []")
  case True
  with assms have "filepaths' = []" by simp
  with True show ?thesis by (simp add: run_def read_files_def)
next
  case False
  with assms have ne: "filepaths' \<noteq> []" by auto
  have c: "compute_metrics (apply_sigmoid (concat (map snd filepaths'))) =
      compute_metrics (apply_sigmoid (concat (map snd filepaths)))"
    using loaded_mset [OF assms] by (rule compute_metrics_mset)
  show ?thesis
  proof (cases "compute_metrics (apply_sigmoid (concat (map snd filepaths)))")
    case (Inl e)
    with c False ne show ?thesis
      by (simp add: run_def read_files_def Let_def)
  next
    case (Inr metrics)
    with c False ne show ?thesis
      by (simp add: run_def read_files_def Let_def)
  qed
qed

theorem run_independent_of_file_order_witness:
  "mset (second_file # example_files) = mset (example_files @ [second_file]) \<and>
   metrics_table (snd (run (\<lambda>v. ''?'') (second_file # example_files))) =
   metrics_table (snd (run (\<lambda>v. ''?'') (example_files @ [second_file]))) \<and>
   (\<exists>report_lines.
      fst (run (\<lambda>v. ''?'') (example_files @ [second_file])) =
        [INFO ''Reading w_relevance_seed1.pkl'', INFO ''Reading w_relevance_seed2.pkl''] @ report_lines \<and>
      fst (run (\<lambda>v. ''?'') (second_file # example_files)) =
        [INFO ''Reading w_relevance_seed2.pkl'', INFO ''Reading w_relevance_seed1.pkl''] @ report_lines)"
proof -
  have h: "mset (second_file # example_files) = mset (example_files @ [second_file])"
    by simp
  have r: "fst (read_files (example_files @ [second_file])) =
      [INFO ''Reading w_relevance_seed1.pkl'', INFO ''Reading w_relevance_seed2.pkl'']"
    "fst (read_files (second_file # example_files)) =
      [INFO ''Reading w_relevance_seed2.pkl'', INFO ''Reading w_relevance_seed1.pkl'']"
    by (simp_all add: read_files_def example_files_def second_file_def)
  from run_independent_of_file_order [OF h, of "\<lambda>v. ''?''"] h show ?thesis
    unfolding r by (intro conjI) blast+
qed

end
